theory Spec2Isabelle
  imports Main
begin

section \<open>Python values and exceptions\<close>

text \<open>
  An exception is its class name (what \<open>type(e).__name__\<close> gives) and its message
  (what \<open>str(e)\<close> gives). A function that can raise returns \<open>exn + 'a\<close>, with
  \<open>Inl\<close> for the raised exception. Only subclasses of \<open>Exception\<close> are modelled: they
  are what the \<open>except Exception\<close> clauses of both programs catch.
\<close>

datatype exn = Exn (exn_type: string) (exn_msg: string)

definition and_then :: "exn + 'a \<Rightarrow> ('a \<Rightarrow> exn + 'b) \<Rightarrow> exn + 'b" where
  "and_then r k = (case r of Inl e \<Rightarrow> Inl e | Inr a \<Rightarrow> k a)"

text \<open>
  The values \<open>json.loads\<close> produces. A \<open>dict\<close> is the list of its items; its keys
  are distinct, so \<open>map_of\<close> is the lookup. The text of a float is kept as it is.
\<close>

datatype pyval =
    PNone
  | PBool bool
  | PInt int
  | PFloat string
  | PStr string
  | PList "pyval list"
  | PDict "(string \<times> pyval) list"

fun type_name :: "pyval \<Rightarrow> string" where
  "type_name PNone = ''NoneType''"
| "type_name (PBool _) = ''bool''"
| "type_name (PInt _) = ''int''"
| "type_name (PFloat _) = ''float''"
| "type_name (PStr _) = ''str''"
| "type_name (PList _) = ''list''"
| "type_name (PDict _) = ''dict''"

text \<open>Python's \<open>str.startswith\<close>, \<open>str.endswith\<close>, \<open>sub in s\<close> and \<open>sep.join\<close>.\<close>

definition startswith :: "string \<Rightarrow> string \<Rightarrow> bool" where
  "startswith s p = (take (length p) s = p)"

definition endswith :: "string \<Rightarrow> string \<Rightarrow> bool" where
  "endswith s suf = (length suf \<le> length s \<and> drop (length s - length suf) s = suf)"

fun str_contains :: "string \<Rightarrow> string \<Rightarrow> bool" where
  "str_contains [] sub = (sub = [])"
| "str_contains (c # cs) sub = (startswith (c # cs) sub \<or> str_contains cs sub)"

fun join :: "string \<Rightarrow> string list \<Rightarrow> string" where
  "join sep [] = []"
| "join sep [x] = x"
| "join sep (x # y # ys) = x @ sep @ join sep (y # ys)"

text \<open>
  \<open>key in v\<close> and \<open>v[key]\<close> for a string key. The messages of the interpreter's own
  exceptions are written as CPython 3.11 prints them.
\<close>

fun py_contains :: "pyval \<Rightarrow> string \<Rightarrow> exn + bool" where
  "py_contains (PDict items) key = Inr (map_of items key \<noteq> None)"
| "py_contains (PList xs) key = Inr (PStr key \<in> set xs)"
| "py_contains (PStr s) key = Inr (str_contains s key)"
| "py_contains v key =
     Inl (Exn ''TypeError'' (''argument of type '' @ [CHR 0x27] @ type_name v @ [CHR 0x27] @ '' is not iterable''))"

fun py_getitem :: "pyval \<Rightarrow> string \<Rightarrow> exn + pyval" where
  "py_getitem (PDict items) key =
     (case map_of items key of
        Some v \<Rightarrow> Inr v
      | None \<Rightarrow> Inl (Exn ''KeyError'' ([CHR 0x27] @ key @ [CHR 0x27])))"
| "py_getitem (PList xs) key =
     Inl (Exn ''TypeError'' ''list indices must be integers or slices, not str'')"
| "py_getitem (PStr s) key =
     Inl (Exn ''TypeError'' (''string indices must be integers, not '' @ [CHR 0x27] @ ''str'' @ [CHR 0x27]))"
| "py_getitem v key =
     Inl (Exn ''TypeError'' ([CHR 0x27] @ type_name v @ [CHR 0x27] @ '' object is not subscriptable''))"

text \<open>
  The library functions whose results the programs only pass on:
  \<open>hashlib.md5(s.encode()).hexdigest()\<close>, \<open>str\<close> of a creation time, the text an
  f-string puts for a value that is not a string, and \<open>int\<close> of a string, which
  raises \<open>ValueError\<close> for a string that is not a number. Every theorem holds for
  all of them.
\<close>

record 't pylib =
  md5_hexdigest :: "string \<Rightarrow> string"
  str_of :: "'t \<Rightarrow> string"
  str_of_value :: "pyval \<Rightarrow> string"
  int_of :: "string \<Rightarrow> exn + int"

definition format_value :: "('t, 'x) pylib_scheme \<Rightarrow> pyval \<Rightarrow> string" where
  "format_value L v = (case v of PStr s \<Rightarrow> s | _ \<Rightarrow> str_of_value L v)"

section \<open>Object Locator\<close>

text \<open>
  An entry of an Object Storage listing (\<open>ObjectSummary\<close>): the fields the two programs
  read. The creation time is a \<open>datetime\<close>; the programs only compare it and print
  it, so it is any linearly ordered type.
\<close>

record 't obj =
  name :: string
  time_created :: 't
  size_obj :: nat

text \<open>
  \<open>xs.sort(key=f, reverse=True)\<close>: Python's sort is stable, and with \<open>reverse=True\<close>
  elements with equal keys keep their original order. \<open>sort_key\<close> is a stable
  insertion sort, so the reversed sort is the reversal of the sorted reversal.
\<close>

definition sort_reverse :: "('a \<Rightarrow> 'k::linorder) \<Rightarrow> 'a list \<Rightarrow> 'a list" where
  "sort_reverse f xs = rev (sort_key f (rev xs))"

text \<open>
  The part of both locators after the listing call (func.py lines 47-60,
  send\_latest\_report.py lines 144-155): keep the names that end with \<open>.csv.gz\<close>,
  sort by creation time, newest first, and take element 0.
\<close>

definition report_files :: "'t obj list \<Rightarrow> 't obj list" where
  "report_files objects = filter (\<lambda>obj. endswith (name obj) ''.csv.gz'') objects"

definition latest_of :: "('t::linorder) obj list \<Rightarrow> 't obj option" where
  "latest_of objects =
     (case sort_reverse time_created (report_files objects) of
        [] \<Rightarrow> None
      | latest_file_obj # _ \<Rightarrow> Some latest_file_obj)"

text \<open>
  \<open>get_latest_report_filename\<close> of func.py. \<open>list_objects\<close> is the Object Storage
  client's call, a function of namespace, bucket and prefix that returns the objects of
  the listing or raises; an exception of the call is logged and raised again. An empty
  listing leaves \<open>latest_file\<close> at \<open>None\<close>.
\<close>

definition get_latest_report_filename ::
  "(string \<Rightarrow> string \<Rightarrow> string \<Rightarrow> exn + ('t::linorder) obj list) \<Rightarrow> string \<Rightarrow> string \<Rightarrow> string
     \<Rightarrow> exn + string option" where
  "get_latest_report_filename list_objects namespace bucket_name prefix =
     (case list_objects namespace bucket_name prefix of
        Inl e \<Rightarrow> Inl e
      | Inr objects \<Rightarrow>
          if objects \<noteq> [] then
            (if report_files objects = [] then Inr None
             else Inr (map_option name (latest_of objects)))
          else Inr None)"

text \<open>
  The objects the spec calls matching: the name has the prefix and ends with
  \<open>.csv.gz\<close>.
\<close>

definition matching :: "string \<Rightarrow> 't obj list \<Rightarrow> 't obj list" where
  "matching prefix objects =
     filter (\<lambda>obj. startswith (name obj) prefix \<and> endswith (name obj) ''.csv.gz'') objects"

section \<open>Email Composer\<close>

subsection \<open>Base64 as \<open>email.encoders.encode_base64\<close> writes it\<close>

text \<open>
  Bytes are \<open>char\<close>s (eight bits each). \<open>encode_base64\<close> replaces the payload by
  \<open>base64.encodebytes\<close> of it: the input is cut into pieces of 57 bytes, each piece
  becomes a line of at most 76 characters ended by a newline (\<open>binascii.b2a_base64\<close>).
\<close>

definition b64_alphabet :: string where
  "b64_alphabet = ''ABCDEFGHIJKLMNOPQRSTUVWXYZabcdefghijklmnopqrstuvwxyz0123456789+/''"

definition b64_char :: "nat \<Rightarrow> char" where
  "b64_char n = b64_alphabet ! n"

fun b2a_groups :: "string \<Rightarrow> string" where
  "b2a_groups [] = []"
| "b2a_groups [a] =
     (let x = (of_char a :: nat)
      in [b64_char (x div 4), b64_char ((x mod 4) * 16), CHR ''='', CHR ''=''])"
| "b2a_groups [a, b] =
     (let x = (of_char a :: nat); y = (of_char b :: nat)
      in [b64_char (x div 4), b64_char ((x mod 4) * 16 + y div 16),
          b64_char ((y mod 16) * 4), CHR ''=''])"
| "b2a_groups (a # b # c # rest) =
     (let x = (of_char a :: nat); y = (of_char b :: nat); z = (of_char c :: nat)
      in [b64_char (x div 4), b64_char ((x mod 4) * 16 + y div 16),
          b64_char ((y mod 16) * 4 + z div 64), b64_char (z mod 64)] @ b2a_groups rest)"

definition b2a_base64 :: "string \<Rightarrow> string" where
  "b2a_base64 chunk = b2a_groups chunk @ [CHR 0x0A]"

definition MAXBINSIZE :: nat where
  "MAXBINSIZE = 57"

function chunks :: "string \<Rightarrow> string list" where
  "chunks s = (if s = [] then [] else take MAXBINSIZE s # chunks (drop MAXBINSIZE s))"
  by pat_completeness auto
termination
  by (relation "measure length") (auto simp: MAXBINSIZE_def)

definition encodebytes :: "string \<Rightarrow> string" where
  "encodebytes s = concat (map b2a_base64 (chunks s))"

text \<open>
  Decoding, as RFC 2045 section 6.8 and \<open>binascii.a2b_base64\<close> do it: characters outside
  the alphabet (the line breaks) are skipped, four characters give three bytes, and
  padding ends the data. \<open>None\<close> is a malformed input.
\<close>

fun b64_index_in :: "string \<Rightarrow> char \<Rightarrow> nat option" where
  "b64_index_in [] c = None"
| "b64_index_in (a # as) c = (if a = c then Some 0 else map_option Suc (b64_index_in as c))"

definition b64_index :: "char \<Rightarrow> nat option" where
  "b64_index c = b64_index_in b64_alphabet c"

fun a2b_quads :: "string \<Rightarrow> string option" where
  "a2b_quads [] = Some []"
| "a2b_quads (a # b # c # d # rest) =
     (case (b64_index a, b64_index b) of
        (Some i, Some j) \<Rightarrow>
          (if c = CHR ''='' then
             (if d = CHR ''='' then Some [char_of (i * 4 + j div 16)] else None)
           else
             (case b64_index c of
                None \<Rightarrow> None
              | Some k \<Rightarrow>
                  (if d = CHR ''='' then
                     Some [char_of (i * 4 + j div 16), char_of ((j mod 16) * 16 + k div 4)]
                   else
                     (case b64_index d of
                        None \<Rightarrow> None
                      | Some l \<Rightarrow>
                          map_option
                            (\<lambda>bytes. [char_of (i * 4 + j div 16), char_of ((j mod 16) * 16 + k div 4),
                                      char_of ((k mod 4) * 64 + l)] @ bytes)
                            (a2b_quads rest)))))
      | _ \<Rightarrow> None)"
| "a2b_quads _ = None"

definition b64_kept :: "char \<Rightarrow> bool" where
  "b64_kept c = (case b64_index c of Some _ \<Rightarrow> True | None \<Rightarrow> c = CHR ''='')"

definition b64decode :: "string \<Rightarrow> string option" where
  "b64decode s = a2b_quads (filter b64_kept s)"

subsection \<open>The message\<close>

text \<open>
  A MIME part with the headers the programs set, and the message: its three headers and
  the attachment. The plain-text body is a fixed template that no claim reads; the model
  leaves it out.
\<close>

record mime_part =
  content_type :: string
  content_transfer_encoding :: string
  content_disposition :: string
  payload :: string

record email =
  msg_from :: string
  msg_to :: string
  msg_subject :: string
  msg_attachment :: mime_part

definition encode_base64 :: "mime_part \<Rightarrow> mime_part" where
  "encode_base64 part =
     part\<lparr>payload := encodebytes (payload part), content_transfer_encoding := ''base64''\<rparr>"

text \<open>
  The attachment of both programs (func.py lines 224-228, send\_latest\_report.py lines
  238-242): \<open>MIMEBase("application", "octet-stream")\<close>, \<open>set_payload\<close>,
  \<open>encode_base64\<close>, then the \<open>Content-Disposition\<close> header.
\<close>

definition attach_file :: "string \<Rightarrow> string \<Rightarrow> mime_part" where
  "attach_file file_name file_data =
     (let part = \<lparr>content_type = ''application/octet-stream'', content_transfer_encoding = [],
                   content_disposition = [], payload = file_data\<rparr>;
          part = encode_base64 part
      in part\<lparr>content_disposition := ''attachment; filename='' @ [CHR 0x22] @ file_name @ [CHR 0x22]\<rparr>)"

definition compose :: "string \<Rightarrow> string \<Rightarrow> string \<Rightarrow> string \<Rightarrow> email" where
  "compose sender recipient file_name file_data =
     \<lparr>msg_from = sender, msg_to = recipient, msg_subject = ''OCI Usage Report: '' @ file_name,
      msg_attachment = attach_file file_name file_data\<rparr>"

text \<open>What a reader of the message gets from the attachment part.\<close>

definition decoded_payload :: "mime_part \<Rightarrow> string option" where
  "decoded_payload part =
     (if content_transfer_encoding part = ''base64'' then b64decode (payload part)
      else Some (payload part))"


section \<open>The world outside the programs\<close>

text \<open>
  Every call to the file system, to the OCI SDK and to the SMTP server is recorded, in
  order, in a trace. A session with the SMTP server is connect, STARTTLS, login,
  \<open>send_message\<close> and QUIT: \<open>SmtpSession\<close> is recorded when it is opened,
  \<open>Transmitted\<close> when \<open>send_message\<close> has handed the message to the server, and
  \<open>EmailSent\<close> when the whole session has ended without an exception.
\<close>

datatype io_event =
    FileExists string
  | FileRead string
  | FileWrite string
  | ConfigFromFile
  | NewSigner
  | ResourcePrincipalsSigner
  | NewClient string
  | ListObjects string string string
  | GetObject string string pyval
  | GetSecretBundle string
  | SmtpSession string int
  | Transmitted email
  | EmailSent email

text \<open>What a write of the ledger file can do: complete, fail at \<open>open\<close>, or fail part-way.\<close>

datatype write_outcome = WriteOk | OpenFailed | WriteFailed

text \<open>
  What a session with the SMTP server can do: end without an exception; raise before
  the message is transmitted (connect, STARTTLS, login or \<open>send_message\<close> fails); or
  raise after it (the QUIT at the end of the \<open>with\<close> block of
  send\_latest\_report.py, which raises on a reply other than 221, or the \<open>quit()\<close>
  of func.py).
\<close>

datatype smtp_outcome = SessionOk | RaisedBeforeSend exn | RaisedAfterSend exn

text \<open>
  The outcomes of the external calls, as the programs see them: a result or a raised
  exception (\<open>Some e\<close> where the call returns nothing of interest). The configuration
  file is the list of its lines or is absent.
\<close>

record 't world =
  config_path :: string
  config_file :: "string list option"
  environ :: "string \<rightharpoonup> string"
  from_file :: "exn option"
  new_signer :: "exn option"
  get_resource_principals_signer :: "exn option"
  new_client :: "string \<Rightarrow> exn option"
  list_objects :: "string \<Rightarrow> string \<Rightarrow> string \<Rightarrow> exn + 't obj list"
  get_object :: "string \<Rightarrow> string \<Rightarrow> pyval \<Rightarrow> exn + string"
  get_secret_bundle :: "string \<Rightarrow> exn + string"
  b64decode_utf8 :: "string \<Rightarrow> exn + string"
  smtp :: "string \<Rightarrow> int \<Rightarrow> string \<Rightarrow> string \<Rightarrow> email \<Rightarrow> smtp_outcome"
  now_isoformat :: string
  write_ledger :: write_outcome

definition count_sent :: "io_event list \<Rightarrow> nat" where
  "count_sent tr = length (filter (\<lambda>ev. case ev of EmailSent _ \<Rightarrow> True | _ \<Rightarrow> False) tr)"

definition count_transmitted :: "io_event list \<Rightarrow> nat" where
  "count_transmitted tr =
     length (filter (\<lambda>ev. case ev of Transmitted _ \<Rightarrow> True | _ \<Rightarrow> False) tr)"

section \<open>The polling program (send\_latest\_report.py)\<close>

subsection \<open>State\<close>

text \<open>
  A record of the ledger (the value stored under a fingerprint by
  \<open>mark_file_as_sent\<close>), the ledger as the \<open>dict\<close> \<open>self.sent_files\<close>, and the file
  \<open>sent_files.json\<close>: absent, not loadable (not JSON, as after a write that failed
  part-way), or the JSON object that \<open>save_sent_files\<close>, its only writer, has dumped.
  A file that holds JSON other than an object, which the program never writes, has no
  case here: the states of the model are those in which \<open>self.sent_files\<close> is a
  \<open>dict\<close>.
\<close>

record sent_record =
  rec_file_name :: string
  rec_time_created :: string
  rec_sent_at :: string

type_synonym ledger = "string \<rightharpoonup> sent_record"

datatype ledger_file = NoFile | Unreadable | Stored ledger

text \<open>
  The state of one process: the fields of the \<open>ReportSender\<close>, the ledger file, and the
  trace of external calls made so far.
\<close>

record state =
  config :: "string \<rightharpoonup> string"
  sent_files :: ledger
  ledger_file :: ledger_file
  trace :: "io_event list"

definition emit :: "io_event \<Rightarrow> state \<Rightarrow> state" where
  "emit ev s = s\<lparr>trace := trace s @ [ev]\<rparr>"

text \<open>A step that can raise, in a state; \<open>bind_io\<close> runs the next step unless it raised.\<close>

definition bind_io ::
  "(exn + 'a) \<times> 's \<Rightarrow> ('a \<Rightarrow> 's \<Rightarrow> (exn + 'b) \<times> 's) \<Rightarrow> (exn + 'b) \<times> 's" where
  "bind_io m k = (case m of (Inl e, s) \<Rightarrow> (Inl e, s) | (Inr a, s) \<Rightarrow> k a s)"

text \<open>\<open>self.config[key]\<close>: a missing key raises \<open>KeyError\<close>.\<close>

definition config_item :: "string \<Rightarrow> state \<Rightarrow> (exn + string) \<times> state" where
  "config_item key s =
     (case config s key of
        None \<Rightarrow> (Inl (Exn ''KeyError'' ([CHR 0x27] @ key @ [CHR 0x27])), s)
      | Some v \<Rightarrow> (Inr v, s))"

text \<open>An external call without a result, and one with a result.\<close>

definition call :: "io_event \<Rightarrow> exn option \<Rightarrow> state \<Rightarrow> (exn + unit) \<times> state" where
  "call ev outcome s = ((case outcome of Some e \<Rightarrow> Inl e | None \<Rightarrow> Inr ()), emit ev s)"

definition call_for :: "io_event \<Rightarrow> exn + 'a \<Rightarrow> state \<Rightarrow> (exn + 'a) \<times> state" where
  "call_for ev outcome s = (outcome, emit ev s)"

subsection \<open>Configuration\<close>

text \<open>
  \<open>str.strip()\<close> removes white space at both ends, \<open>str.strip(chars)\<close> the given
  characters. A character of the configuration file is a code point below 256; the
  white space among these is as \<open>str.isspace\<close> has it, with U+0085 and U+00A0.
\<close>

definition is_space :: "char \<Rightarrow> bool" where
  "is_space c = (c \<in> set [CHR '' '', CHR 0x09, CHR 0x0A, CHR 0x0B, CHR 0x0C, CHR 0x0D,
                           CHR 0x1C, CHR 0x1D, CHR 0x1E, CHR 0x1F, CHR 0x85, CHR 0xA0])"

definition strip :: "(char \<Rightarrow> bool) \<Rightarrow> string \<Rightarrow> string" where
  "strip P s = rev (dropWhile P (rev (dropWhile P s)))"

text \<open>The body of the loop over the lines of the file.\<close>

definition config_line :: "(string \<rightharpoonup> string) \<Rightarrow> string \<Rightarrow> (string \<rightharpoonup> string)" where
  "config_line cfg raw =
     (let line = strip is_space raw
      in if line \<noteq> [] \<and> \<not> startswith line ''#'' \<and> CHR ''='' \<in> set line then
           (let key = takeWhile (\<lambda>c. c \<noteq> CHR ''='') line;
                val = tl (dropWhile (\<lambda>c. c \<noteq> CHR ''='') line);
                val = strip (\<lambda>c. c = CHR 0x22 \<or> c = CHR 0x27) val
            in cfg(key \<mapsto> val))
         else cfg)"

definition parse_config :: "string list \<Rightarrow> (string \<rightharpoonup> string)" where
  "parse_config lines = foldl config_line Map.empty lines"

definition required_keys :: "string list" where
  "required_keys =
     [''NAMESPACE'', ''REPORT_BUCKET_NAME'', ''EMAIL_SENDER'', ''EMAIL_RECIPIENT'',
      ''SMTP_USERNAME_SECRET_OCID'', ''SMTP_PASSWORD_SECRET_OCID'',
      ''SMTP_SERVER'', ''SMTP_PORT'']"

text \<open>\<open>not config.get(key)\<close>: the key is absent or its value is the empty string.\<close>

definition unset :: "(string \<rightharpoonup> string) \<Rightarrow> string \<Rightarrow> bool" where
  "unset m key = (case m key of None \<Rightarrow> True | Some v \<Rightarrow> v = [])"

definition missing_keys :: "(string \<rightharpoonup> string) \<Rightarrow> string list" where
  "missing_keys cfg = filter (unset cfg) required_keys"

text \<open>
  How an f-string prints a list of strings: the \<open>repr\<close> of each, which for the names
  above is the name in single quotes.
\<close>

definition repr_list :: "string list \<Rightarrow> string" where
  "repr_list xs = ''['' @ join '', '' (map (\<lambda>x. [CHR 0x27] @ x @ [CHR 0x27]) xs) @ '']''"

definition load_config :: "'t world \<Rightarrow> state \<Rightarrow> (exn + (string \<rightharpoonup> string)) \<times> state" where
  "load_config w s =
     (let s = emit (FileExists (config_path w)) s
      in case config_file w of
           None \<Rightarrow>
             (Inl (Exn ''FileNotFoundError'' (''Configuration file not found: '' @ config_path w)), s)
         | Some lines \<Rightarrow>
             (let s = emit (FileRead (config_path w)) s;
                  cfg = parse_config lines;
                  missing = missing_keys cfg
              in if missing \<noteq> [] then
                   (Inl (Exn ''ValueError''
                          (''Missing required configuration keys: '' @ repr_list missing)), s)
                 else (Inr cfg, s)))"

subsection \<open>Sent-Ledger\<close>

definition sent_files_db :: string where
  "sent_files_db = ''sent_files.json''"

text \<open>
  \<open>load_sent_files\<close>: the file is opened when it exists; any exception while loading is
  logged as a warning and the empty \<open>dict\<close> is returned.
\<close>

definition load_sent_files :: "state \<Rightarrow> ledger \<times> state" where
  "load_sent_files s =
     (let s = emit (FileExists sent_files_db) s
      in case ledger_file s of
           NoFile \<Rightarrow> (Map.empty, s)
         | Unreadable \<Rightarrow> (Map.empty, emit (FileRead sent_files_db) s)
         | Stored m \<Rightarrow> (m, emit (FileRead sent_files_db) s))"

text \<open>
  \<open>save_sent_files\<close>: the whole \<open>dict\<close> is written; an exception is logged and
  swallowed.
\<close>

definition save_sent_files :: "'t world \<Rightarrow> state \<Rightarrow> state" where
  "save_sent_files w s =
     (let s = emit (FileWrite sent_files_db) s
      in case write_ledger w of
           WriteOk \<Rightarrow> s\<lparr>ledger_file := Stored (sent_files s)\<rparr>
         | OpenFailed \<Rightarrow> s
         | WriteFailed \<Rightarrow> s\<lparr>ledger_file := Unreadable\<rparr>)"

definition file_key :: "('t, 'x) pylib_scheme \<Rightarrow> string \<Rightarrow> 't \<Rightarrow> string" where
  "file_key L file_name file_time_created = file_name @ ''_'' @ str_of L file_time_created"

definition file_hash :: "('t, 'x) pylib_scheme \<Rightarrow> string \<Rightarrow> 't \<Rightarrow> string" where
  "file_hash L file_name file_time_created =
     md5_hexdigest L (file_key L file_name file_time_created)"

definition is_file_already_sent :: "('t, 'x) pylib_scheme \<Rightarrow> state \<Rightarrow> string \<Rightarrow> 't \<Rightarrow> bool" where
  "is_file_already_sent L s file_name file_time_created =
     (sent_files s (file_hash L file_name file_time_created) \<noteq> None)"

definition mark_file_as_sent ::
  "('t, 'x) pylib_scheme \<Rightarrow> 'u world \<Rightarrow> state \<Rightarrow> string \<Rightarrow> 't \<Rightarrow> state" where
  "mark_file_as_sent L w s file_name file_time_created =
     (let s = s\<lparr>sent_files := (sent_files s)(file_hash L file_name file_time_created \<mapsto>
                  \<lparr>rec_file_name = file_name,
                   rec_time_created = str_of L file_time_created,
                   rec_sent_at = now_isoformat w\<rparr>)\<rparr>
      in save_sent_files w s)"

subsection \<open>The steps of a run\<close>

definition prefix_weekly :: string where
  "prefix_weekly = ''WeeklyCostsScheduledReport_''"

definition get_latest_report_file ::
  "('t::linorder) world \<Rightarrow> state \<Rightarrow> (exn + 't obj option) \<times> state" where
  "get_latest_report_file w s =
     bind_io (config_item ''REPORT_BUCKET_NAME'' s) (\<lambda>_ s.
     bind_io (config_item ''NAMESPACE'' s) (\<lambda>namespace s.
     bind_io (config_item ''REPORT_BUCKET_NAME'' s) (\<lambda>bucket_name s.
     bind_io (call_for (ListObjects namespace bucket_name prefix_weekly)
                (list_objects w namespace bucket_name prefix_weekly) s) (\<lambda>objects s.
       if objects = [] then (Inr None, s)
       else if report_files objects = [] then (Inr None, s)
       else (Inr (latest_of objects), s)))))"

definition download_file :: "'t world \<Rightarrow> string \<Rightarrow> state \<Rightarrow> (exn + string) \<times> state" where
  "download_file w file_name s =
     bind_io (config_item ''NAMESPACE'' s) (\<lambda>namespace s.
     bind_io (config_item ''REPORT_BUCKET_NAME'' s) (\<lambda>bucket_name s.
       call_for (GetObject namespace bucket_name (PStr file_name))
         (get_object w namespace bucket_name (PStr file_name)) s))"

definition get_secret :: "'t world \<Rightarrow> string \<Rightarrow> state \<Rightarrow> (exn + string) \<times> state" where
  "get_secret w secret_ocid s =
     bind_io (call_for (GetSecretBundle secret_ocid) (get_secret_bundle w secret_ocid) s)
       (\<lambda>content s. (b64decode_utf8 w content, s))"

text \<open>
  \<open>send_email\<close>. The port is converted before the session is opened. An exception
  after the transmission leaves the \<open>with\<close> block like any other: it is logged and
  raised again.
\<close>

definition send_email ::
  "('u, 'x) pylib_scheme \<Rightarrow> 't world \<Rightarrow> string \<Rightarrow> string \<Rightarrow> state \<Rightarrow> (exn + unit) \<times> state" where
  "send_email L w file_name file_data s =
     bind_io (config_item ''SMTP_USERNAME_SECRET_OCID'' s) (\<lambda>user_ocid s.
     bind_io (get_secret w user_ocid s) (\<lambda>smtp_username s.
     bind_io (config_item ''SMTP_PASSWORD_SECRET_OCID'' s) (\<lambda>pass_ocid s.
     bind_io (get_secret w pass_ocid s) (\<lambda>smtp_password s.
     bind_io (config_item ''EMAIL_SENDER'' s) (\<lambda>sender s.
     bind_io (config_item ''EMAIL_RECIPIENT'' s) (\<lambda>recipient s.
       (let msg = compose sender recipient file_name file_data
        in bind_io (config_item ''SMTP_SERVER'' s) (\<lambda>server s.
           bind_io (config_item ''SMTP_PORT'' s) (\<lambda>port_text s.
           bind_io (int_of L port_text, s) (\<lambda>port s.
             (let s = emit (SmtpSession server port) s
              in case smtp w server port smtp_username smtp_password msg of
                   RaisedBeforeSend e \<Rightarrow> (Inl e, s)
                 | RaisedAfterSend e \<Rightarrow> (Inl e, emit (Transmitted msg) s)
                 | SessionOk \<Rightarrow> (Inr (), emit (EmailSent msg) (emit (Transmitted msg) s)))))))))))))"

subsection \<open>\<open>ReportSender.run\<close> and \<open>main\<close>\<close>

text \<open>
  How a call ends: it returns, or \<open>sys.exit\<close> ends the process with the given code.
\<close>

datatype ending = Returned | SystemExit nat

definition run :: "('t, 'x) pylib_scheme \<Rightarrow> ('t::linorder) world \<Rightarrow> state \<Rightarrow> ending \<times> state" where
  "run L w s =
     (case get_latest_report_file w s of
        (Inl e, s) \<Rightarrow> (SystemExit 1, s)
      | (Inr None, s) \<Rightarrow> (Returned, s)
      | (Inr (Some latest_file), s) \<Rightarrow>
          if is_file_already_sent L s (name latest_file) (time_created latest_file) then
            (Returned, s)
          else
            (case download_file w (name latest_file) s of
               (Inl e, s) \<Rightarrow> (SystemExit 1, s)
             | (Inr file_data, s) \<Rightarrow>
                 (case send_email L w (name latest_file) file_data s of
                    (Inl e, s) \<Rightarrow> (SystemExit 1, s)
                  | (Inr _, s) \<Rightarrow>
                      (Returned,
                       mark_file_as_sent L w s (name latest_file) (time_created latest_file)))))"

text \<open>
  \<open>ReportSender.__init__\<close>: the configuration, the ledger, then the OCI configuration,
  the signer and the two clients.
\<close>

definition init :: "'t world \<Rightarrow> state \<Rightarrow> (exn + unit) \<times> state" where
  "init w s =
     bind_io (load_config w s) (\<lambda>cfg s.
       (let s = s\<lparr>config := cfg\<rparr>;
            (loaded, s) = load_sent_files s;
            s = s\<lparr>sent_files := loaded\<rparr>
        in bind_io (call ConfigFromFile (from_file w) s) (\<lambda>_ s.
           bind_io (call NewSigner (new_signer w) s) (\<lambda>_ s.
           bind_io (call (NewClient ''ObjectStorageClient'') (new_client w ''ObjectStorageClient'') s) (\<lambda>_ s.
             call (NewClient ''SecretsClient'') (new_client w ''SecretsClient'') s)))))"

text \<open>A process starts with the ledger file as the last process left it.\<close>

definition start :: "ledger_file \<Rightarrow> state" where
  "start f = \<lparr>config = Map.empty, sent_files = Map.empty, ledger_file = f, trace = []\<rparr>"

text \<open>\<open>main\<close>, as the exit code of the process and its final state.\<close>

definition main :: "('t, 'x) pylib_scheme \<Rightarrow> ('t::linorder) world \<Rightarrow> ledger_file \<Rightarrow> nat \<times> state" where
  "main L w f =
     (case init w (start f) of
        (Inl e, s) \<Rightarrow> (1, s)
      | (Inr _, s) \<Rightarrow>
          (case run L w s of
             (Returned, s) \<Rightarrow> (0, s)
           | (SystemExit code, s) \<Rightarrow> (code, s)))"

text \<open>
  Two states with the same configuration, the same ledger and the same ledger file: they
  differ in the trace only.
\<close>

definition same_store :: "state \<Rightarrow> state \<Rightarrow> bool" where
  "same_store s s' =
     (config s' = config s \<and> sent_files s' = sent_files s \<and> ledger_file s' = ledger_file s)"


section \<open>The event handler (func.py)\<close>

text \<open>
  The handler keeps no state; its steps thread the trace of external calls. \<open>hcall\<close> is
  an external call with its outcome.
\<close>

definition hcall :: "io_event \<Rightarrow> exn + 'a \<Rightarrow> io_event list \<Rightarrow> (exn + 'a) \<times> io_event list" where
  "hcall ev outcome tr = (outcome, tr @ [ev])"

definition raised :: "exn option \<Rightarrow> exn + unit" where
  "raised outcome = (case outcome of Some e \<Rightarrow> Inl e | None \<Rightarrow> Inr ())"

subsection \<open>The trigger payload\<close>

text \<open>
  The request body, given as what \<open>json.loads(data.getvalue())\<close> makes of its bytes:
  the parsed value, or the exception raised. Text that is not JSON raises
  \<open>JSONDecodeError\<close>; bytes that are not text (such as the single byte 0xFF, which is
  not UTF-8) raise \<open>UnicodeDecodeError\<close>, which is a \<open>ValueError\<close> but not a
  \<open>JSONDecodeError\<close>.
\<close>

type_synonym payload = "exn + pyval"

text \<open>
  Lines 92-99. Inside the inner \<open>try\<close>, \<open>body.keys()\<close> is logged: a parsed value
  that is not a \<open>dict\<close> raises \<open>AttributeError\<close> there. The inner \<open>except\<close> catches
  \<open>json.JSONDecodeError\<close> only.
\<close>

definition parse_input :: "payload option \<Rightarrow> exn + pyval" where
  "parse_input data =
     (case data of
        None \<Rightarrow> Inr (PDict [])
      | Some (Inr body) \<Rightarrow>
          (case body of
             PDict items \<Rightarrow> Inr body
           | _ \<Rightarrow> Inl (Exn ''AttributeError''
                    ([CHR 0x27] @ type_name body @ [CHR 0x27] @ '' object has no attribute ''
                     @ [CHR 0x27] @ ''keys'' @ [CHR 0x27])))
      | Some (Inl e) \<Rightarrow>
          if exn_type e = ''JSONDecodeError'' then Inr (PDict []) else Inl e)"

text \<open>Lines 102-113.\<close>

definition extract_object_name :: "pyval \<Rightarrow> exn + pyval" where
  "extract_object_name body =
     and_then (py_contains body ''data'') (\<lambda>has_data.
     and_then (if has_data then
                 and_then (py_getitem body ''data'') (\<lambda>d. py_contains d ''resourceName'')
               else Inr False) (\<lambda>from_event.
       if from_event then
         and_then (py_getitem body ''data'') (\<lambda>d. py_getitem d ''resourceName'')
       else
         and_then (py_contains body ''objectName'') (\<lambda>has_name.
           if has_name then py_getitem body ''objectName''
           else Inr (PStr ''test-report.csv''))))"

subsection \<open>Authentication and environment\<close>

text \<open>Lines 119-141: the resource principal when its variable is set, the local file otherwise.\<close>

definition authenticate :: "'t world \<Rightarrow> io_event list \<Rightarrow> (exn + unit) \<times> io_event list" where
  "authenticate w tr =
     (if environ w ''OCI_RESOURCE_PRINCIPAL_VERSION'' \<noteq> None then
        hcall ResourcePrincipalsSigner (raised (get_resource_principals_signer w)) tr
      else
        bind_io (hcall ConfigFromFile (raised (from_file w)) tr) (\<lambda>_ tr.
          hcall NewSigner (raised (new_signer w)) tr))"

text \<open>
  Lines 145-154: the \<open>dict\<close> \<open>env_vars\<close>. The value of an unset variable is Python's
  \<open>None\<close>, here \<open>None\<close>; server and port have defaults.
\<close>

definition env_vars :: "'t world \<Rightarrow> (string \<rightharpoonup> string)" where
  "env_vars w =
     (\<lambda>key.
        if key = ''SMTP_SERVER'' then
          Some (case environ w key of
                  None \<Rightarrow> ''smtp.email.eu-frankfurt-1.oci.oraclecloud.com'' | Some v \<Rightarrow> v)
        else if key = ''SMTP_PORT'' then
          Some (case environ w key of None \<Rightarrow> ''587'' | Some v \<Rightarrow> v)
        else if key \<in> set [''SMTP_USERNAME_SECRET_OCID'', ''SMTP_PASSWORD_SECRET_OCID'',
                            ''EMAIL_FROM'', ''EMAIL_TO'', ''NAMESPACE'', ''BUCKET_NAME''] then
          environ w key
        else None)"

definition required_vars :: "string list" where
  "required_vars =
     [''SMTP_USERNAME_SECRET_OCID'', ''SMTP_PASSWORD_SECRET_OCID'',
      ''EMAIL_FROM'', ''EMAIL_TO'', ''NAMESPACE'', ''BUCKET_NAME'']"

definition missing_vars :: "'t world \<Rightarrow> string list" where
  "missing_vars w = filter (unset (env_vars w)) required_vars"

text \<open>
  \<open>env_vars[key]\<close> where the handler reads a string: after the check of the required
  variables the value is a string that is not empty.
\<close>

definition env_var :: "'t world \<Rightarrow> string \<Rightarrow> string" where
  "env_var w key = (case env_vars w key of Some v \<Rightarrow> v | None \<Rightarrow> [])"

subsection \<open>The steps after the check\<close>

text \<open>\<open>get_secret\<close> of func.py: a new client, the bundle, and its decoding.\<close>

definition get_secret_f :: "'t world \<Rightarrow> string \<Rightarrow> io_event list \<Rightarrow> (exn + string) \<times> io_event list" where
  "get_secret_f w secret_id tr =
     bind_io (hcall (NewClient ''SecretsClient'') (raised (new_client w ''SecretsClient'')) tr) (\<lambda>_ tr.
     bind_io (hcall (GetSecretBundle secret_id) (get_secret_bundle w secret_id) tr) (\<lambda>content tr.
       (b64decode_utf8 w content, tr)))"

definition success_result :: "('t, 'x) pylib_scheme \<Rightarrow> 't world \<Rightarrow> pyval \<Rightarrow> (string \<times> pyval) list" where
  "success_result L w object_name =
     [(''status'', PStr ''success''),
      (''message'', PStr (''Email sent successfully for '' @ format_value L object_name)),
      (''object_name'', object_name),
      (''recipient'', PStr (env_var w ''EMAIL_TO''))]"

definition error_result :: "exn \<Rightarrow> (string \<times> pyval) list" where
  "error_result e =
     [(''status'', PStr ''error''),
      (''message'', PStr (''Function execution failed: '' @ exn_msg e)),
      (''error_type'', PStr (exn_type e))]"

text \<open>
  Lines 175-251, reached when no required variable is missing. The port is converted
  before the session is opened; an exception of the session, before or after the
  transmission, is logged and raised again.
\<close>

definition deliver ::
  "('t, 'x) pylib_scheme \<Rightarrow> 't world \<Rightarrow> pyval \<Rightarrow> io_event list
     \<Rightarrow> (exn + (string \<times> pyval) list) \<times> io_event list" where
  "deliver L w object_name tr =
     bind_io (hcall (NewClient ''ObjectStorageClient'')
                (raised (new_client w ''ObjectStorageClient'')) tr) (\<lambda>_ tr.
       (let namespace = env_var w ''NAMESPACE'';
            bucket_name = env_var w ''BUCKET_NAME''
        in bind_io (hcall (GetObject namespace bucket_name object_name)
                      (get_object w namespace bucket_name object_name) tr) (\<lambda>file_data tr.
           bind_io (get_secret_f w (env_var w ''SMTP_USERNAME_SECRET_OCID'') tr) (\<lambda>smtp_user tr.
           bind_io (get_secret_f w (env_var w ''SMTP_PASSWORD_SECRET_OCID'') tr) (\<lambda>smtp_pass tr.
             (let msg = compose (env_var w ''EMAIL_FROM'') (env_var w ''EMAIL_TO'')
                          (format_value L object_name) file_data
              in bind_io (int_of L (env_var w ''SMTP_PORT''), tr) (\<lambda>port tr.
                   (let tr = tr @ [SmtpSession (env_var w ''SMTP_SERVER'') port]
                    in case smtp w (env_var w ''SMTP_SERVER'') port smtp_user smtp_pass msg of
                         RaisedBeforeSend e \<Rightarrow> (Inl e, tr)
                       | RaisedAfterSend e \<Rightarrow> (Inl e, tr @ [Transmitted msg])
                       | SessionOk \<Rightarrow>
                           (Inr (success_result L w object_name),
                            tr @ [Transmitted msg, EmailSent msg])))))))))"

text \<open>The body of the outer \<open>try\<close>, up to the result.\<close>

definition handler_try ::
  "('t, 'x) pylib_scheme \<Rightarrow> 't world \<Rightarrow> payload option
     \<Rightarrow> (exn + (string \<times> pyval) list) \<times> io_event list" where
  "handler_try L w data =
     bind_io (parse_input data, []) (\<lambda>body tr.
     bind_io (extract_object_name body, tr) (\<lambda>object_name tr.
     bind_io (authenticate w tr) (\<lambda>_ tr.
       if missing_vars w \<noteq> [] then
         (Inl (Exn ''ValueError''
                (''Missing required environment variables: '' @ join '', '' (missing_vars w))), tr)
       else deliver L w object_name tr)))"

subsection \<open>\<open>handler\<close>\<close>

text \<open>
  What the caller gets: an \<open>fdk\<close> response with a status code, or, without a context,
  the bare result. With a context every exception becomes a response with code 500;
  without one the exception is printed and raised again.
\<close>

datatype reply = Response nat "(string \<times> pyval) list" | Result "(string \<times> pyval) list"

definition handler ::
  "('t, 'x) pylib_scheme \<Rightarrow> 't world \<Rightarrow> 'c option \<Rightarrow> payload option
     \<Rightarrow> (exn + reply) \<times> io_event list" where
  "handler L w ctx data =
     (case handler_try L w data of
        (Inr result, tr) \<Rightarrow>
          (if ctx \<noteq> None then (Inr (Response 200 result), tr) else (Inr (Result result), tr))
      | (Inl e, tr) \<Rightarrow>
          (if ctx \<noteq> None then (Inr (Response 500 (error_result e)), tr) else (Inl e, tr)))"

subsection \<open>Shapes of the payload\<close>

text \<open>
  For stating the claims: the \<open>resourceName\<close> of a \<open>data\<close> member that is an object,
  and the payloads on which the test \<open>"resourceName" in body["data"]\<close> can be made and
  means that the member has the key: \<open>data\<close> is absent, or an object, or an array or a
  string that does not contain \<open>resourceName\<close>.
\<close>

definition resource_name :: "(string \<times> pyval) list \<Rightarrow> pyval option" where
  "resource_name items =
     (case map_of items ''data'' of Some (PDict d) \<Rightarrow> map_of d ''resourceName'' | _ \<Rightarrow> None)"

definition data_member_ok :: "(string \<times> pyval) list \<Rightarrow> bool" where
  "data_member_ok items =
     (case map_of items ''data'' of
        None \<Rightarrow> True
      | Some (PDict d) \<Rightarrow> True
      | Some (PList xs) \<Rightarrow> PStr ''resourceName'' \<notin> set xs
      | Some (PStr s) \<Rightarrow> \<not> str_contains s ''resourceName''
      | Some _ \<Rightarrow> False)"


section \<open>A concrete world\<close>

text \<open>
  The scenario of the spec: a configuration with every key, a bucket with two reports,
  the second created later, and collaborators that succeed. The digest and the printing
  of times are stand-ins: the theorems hold for every such function.
\<close>

definition example_lib :: "nat pylib" where
  "example_lib =
     \<lparr>md5_hexdigest = (\<lambda>s. ''md5:'' @ s),
      str_of = (\<lambda>t. if t = 1 then ''2024-01-01 00:00:00+00:00'' else ''2024-01-08 00:00:00+00:00''),
      str_of_value = (\<lambda>v. type_name v),
      int_of = (\<lambda>s. if s = ''587'' then Inr 587
                    else Inl (Exn ''ValueError'' ''invalid literal for int() with base 10''))\<rparr>"

definition example_objects :: "nat obj list" where
  "example_objects =
     [\<lparr>name = ''WeeklyCostsScheduledReport_20240101.csv.gz'', time_created = 1, size_obj = 10\<rparr>,
      \<lparr>name = ''WeeklyCostsScheduledReport_20240108.csv.gz'', time_created = 8, size_obj = 12\<rparr>]"

definition example_lines :: "string list" where
  "example_lines =
     [''# report automation'',
      ''NAMESPACE=ns'',
      ''REPORT_BUCKET_NAME=reports'',
      ''EMAIL_SENDER=a@x'',
      ''EMAIL_RECIPIENT=b@x'',
      ''SMTP_USERNAME_SECRET_OCID=ocid1.u'',
      ''SMTP_PASSWORD_SECRET_OCID=ocid1.p'',
      ''SMTP_SERVER=smtp.x'',
      ''SMTP_PORT=587'']"

definition example_environ :: "string \<rightharpoonup> string" where
  "example_environ =
     map_of [(''SMTP_USERNAME_SECRET_OCID'', ''ocid1.u''), (''SMTP_PASSWORD_SECRET_OCID'', ''ocid1.p''),
             (''EMAIL_FROM'', ''a@x''), (''EMAIL_TO'', ''b@x''),
             (''NAMESPACE'', ''ns''), (''BUCKET_NAME'', ''reports'')]"

definition example_world :: "nat world" where
  "example_world =
     \<lparr>config_path = ''../config.env'',
      config_file = Some example_lines,
      environ = example_environ,
      from_file = None,
      new_signer = None,
      get_resource_principals_signer = None,
      new_client = (\<lambda>_. None),
      list_objects = (\<lambda>namespace bucket_name prefix. Inr example_objects),
      get_object = (\<lambda>namespace bucket_name object_name. Inr ''report''),
      get_secret_bundle = (\<lambda>secret_id. Inr ''c2VjcmV0''),
      b64decode_utf8 = (\<lambda>content. Inr ''secret''),
      smtp = (\<lambda>server port user password msg. SessionOk),
      now_isoformat = ''2024-01-09T06:00:00'',
      write_ledger = WriteOk\<rparr>"

text \<open>A library for creation times that are already strings: \<open>str\<close> of a string is the string.\<close>

definition example_text_lib :: "string pylib" where
  "example_text_lib =
     \<lparr>md5_hexdigest = (\<lambda>s. ''md5:'' @ s), str_of = (\<lambda>t. t), str_of_value = (\<lambda>v. type_name v),
      int_of = (\<lambda>s. if s = ''587'' then Inr 587
                    else Inl (Exn ''ValueError'' ''invalid literal for int() with base 10''))\<rparr>"

text \<open>The state of a sender with the example configuration and an empty ledger.\<close>

definition example_state :: state where
  "example_state = (start NoFile)\<lparr>config := parse_config example_lines\<rparr>"

text \<open>
  The same world with no environment variable set and no local OCI configuration file,
  and trigger payloads: one with a \<open>data\<close> member that is \<open>null\<close>, and a body of
  bytes that are not text.
\<close>

definition bare_world :: "nat world" where
  "bare_world =
     example_world\<lparr>environ := Map.empty,
                   from_file := Some (Exn ''ConfigFileNotFound'' ''Could not find config file'')\<rparr>"

definition null_items :: "(string \<times> pyval) list" where
  "null_items = [(''data'', PNone), (''objectName'', PStr ''x.csv'')]"

definition null_data_payload :: payload where
  "null_data_payload = Inr (PDict [(''data'', PNone), (''objectName'', PStr ''x.csv'')])"


text \<open>
  The example with a configuration file that lacks keys, and with no environment
  variable set.
\<close>

definition short_lines :: "string list" where
  "short_lines = [''NAMESPACE=ns'', ''SMTP_SERVER=smtp.x'', ''SMTP_PORT='']"

definition short_world :: "nat world" where
  "short_world = example_world\<lparr>config_file := Some short_lines\<rparr>"

definition unset_world :: "nat world" where
  "unset_world = example_world\<lparr>environ := Map.empty\<rparr>"

definition event_items :: "(string \<times> pyval) list" where
  "event_items = [(''data'', PDict [(''resourceName'', PStr ''x.csv'')])]"

text \<open>
  The example with a ledger file that cannot be opened for writing and holds the record
  of an older report; and the example with a server that answers the QUIT after the
  transmission with a reply other than 221.
\<close>

definition readonly_world :: "nat world" where
  "readonly_world = example_world\<lparr>write_ledger := OpenFailed\<rparr>"

definition old_ledger :: ledger where
  "old_ledger =
     Map.empty(''md5:WeeklyCostsScheduledReport_20231225.csv.gz_2023-12-25 00:00:00+00:00'' \<mapsto>
       \<lparr>rec_file_name = ''WeeklyCostsScheduledReport_20231225.csv.gz'',
        rec_time_created = ''2023-12-25 00:00:00+00:00'',
        rec_sent_at = ''2023-12-26T06:00:00''\<rparr>)"

definition lost_quit_world :: "nat world" where
  "lost_quit_world =
     example_world\<lparr>smtp := (\<lambda>server port user password msg.
                               RaisedAfterSend (Exn ''SMTPResponseException'' ''(421, closing)''))\<rparr>"


section \<open>Properties of the Object Locator\<close>

lemma sort_key_Nil_iff: "sort_key f xs = [] \<longleftrightarrow> xs = []"
proof -
  have "length (sort_key f xs) = length xs" by (rule length_sort)
  then show ?thesis by (metis length_0_conv)
qed

lemma sort_reverse_Nil_iff: "sort_reverse f xs = [] \<longleftrightarrow> xs = []"
  by (simp add: sort_reverse_def sort_key_Nil_iff)

lemma set_sort_reverse: "set (sort_reverse f xs) = set xs"
  by (simp add: sort_reverse_def)

lemma sorted_le_last: "sorted zs \<Longrightarrow> x \<in> set zs \<Longrightarrow> x \<le> last zs"
  by (induction zs) auto

lemma hd_sort_reverse_max:
  assumes "y \<in> set xs"
  shows "f y \<le> f (hd (sort_reverse f xs))"
proof -
  let ?ys = "sort_key f (rev xs)"
  have ne: "?ys \<noteq> []" using assms by (auto simp: sort_key_Nil_iff)
  have "sorted (map f ?ys)" by simp
  moreover have "f y \<in> set (map f ?ys)" using assms by simp
  ultimately have "f y \<le> last (map f ?ys)" by (rule sorted_le_last)
  then show ?thesis using ne by (simp add: sort_reverse_def hd_rev last_map)
qed

lemma latest_of_None: "latest_of objects = None \<longleftrightarrow> report_files objects = []"
proof -
  have "latest_of objects = None \<longleftrightarrow> sort_reverse time_created (report_files objects) = []"
    by (simp add: latest_of_def split: list.splits)
  then show ?thesis by (simp add: sort_reverse_Nil_iff)
qed

lemma latest_of_Some:
  assumes "latest_of objects = Some l"
  shows "l \<in> set (report_files objects) \<and>
         (\<forall>obj \<in> set (report_files objects). time_created obj \<le> time_created l)"
proof -
  let ?s = "sort_reverse time_created (report_files objects)"
  from assms have s: "?s \<noteq> []" and l: "l = hd ?s"
    by (auto simp: latest_of_def split: list.splits)
  from s l have "l \<in> set ?s" by simp
  then have "l \<in> set (report_files objects)" by (simp add: set_sort_reverse)
  moreover have "\<forall>obj \<in> set (report_files objects). time_created obj \<le> time_created l"
    unfolding l by (blast intro: hd_sort_reverse_max)
  ultimately show ?thesis by blast
qed

lemma matching_report_files:
  assumes "\<forall>obj \<in> set objects. startswith (name obj) prefix"
  shows "matching prefix objects = report_files objects"
  unfolding matching_def report_files_def using assms by (auto intro: filter_cong)

text \<open>What each locator returns once the listing call has returned.\<close>

lemma filename_of_listing:
  assumes "lo namespace bucket_name prefix = Inr objects"
  shows "get_latest_report_filename lo namespace bucket_name prefix =
           Inr (map_option name (latest_of objects))"
proof (cases "report_files objects = []")
  case True
  then have "latest_of objects = None" by (simp add: latest_of_None)
  with assms True show ?thesis by (simp add: get_latest_report_filename_def)
next
  case False
  then have "objects \<noteq> []" by (auto simp: report_files_def)
  with assms False show ?thesis by (simp add: get_latest_report_filename_def)
qed

lemma file_of_listing:
  assumes "config s ''NAMESPACE'' = Some namespace"
      and "config s ''REPORT_BUCKET_NAME'' = Some bucket_name"
      and "list_objects w namespace bucket_name prefix_weekly = Inr objects"
  shows "fst (get_latest_report_file w s) = Inr (latest_of objects)"
proof (cases "report_files objects = []")
  case True
  then have "latest_of objects = None" by (simp add: latest_of_None)
  with assms True show ?thesis
    by (simp add: get_latest_report_file_def bind_io_def config_item_def call_for_def)
next
  case False
  then have "objects \<noteq> []" by (auto simp: report_files_def)
  with assms False show ?thesis
    by (simp add: get_latest_report_file_def bind_io_def config_item_def call_for_def)
qed

text \<open>
  Claim C1. Let a listing for a prefix hold only names with that prefix, as a listing by
  prefix does, and take its matching objects: those whose name also ends with
  \<open>.csv.gz\<close>. When there is at least one, \<open>get_latest_report_filename\<close> returns the
  name of a matching object, and \<open>get_latest_report_file\<close> a matching object, whose
  creation time is at least that of every matching object. When there is none, which
  includes the empty listing, both return \<open>None\<close> and do not raise.
\<close>

theorem locator_returns_latest:
  fixes objects :: "('t::linorder) obj list"
  assumes "\<forall>obj \<in> set objects. startswith (name obj) prefix"
  shows "(lo namespace bucket_name prefix = Inr objects \<longrightarrow>
            (matching prefix objects \<noteq> [] \<longrightarrow>
               (\<exists>l \<in> set (matching prefix objects).
                  (\<forall>obj \<in> set (matching prefix objects). time_created obj \<le> time_created l) \<and>
                  get_latest_report_filename lo namespace bucket_name prefix = Inr (Some (name l)))) \<and>
            (matching prefix objects = [] \<longrightarrow>
               get_latest_report_filename lo namespace bucket_name prefix = Inr None)) \<and>
         (prefix = prefix_weekly \<and> config s ''NAMESPACE'' = Some namespace \<and>
          config s ''REPORT_BUCKET_NAME'' = Some bucket_name \<and>
          list_objects w namespace bucket_name prefix_weekly = Inr objects \<longrightarrow>
            (matching prefix objects \<noteq> [] \<longrightarrow>
               (\<exists>l \<in> set (matching prefix objects).
                  (\<forall>obj \<in> set (matching prefix objects). time_created obj \<le> time_created l) \<and>
                  fst (get_latest_report_file w s) = Inr (Some l))) \<and>
            (matching prefix objects = [] \<longrightarrow> fst (get_latest_report_file w s) = Inr None))"
proof -
  have m: "matching prefix objects = report_files objects"
    using assms by (rule matching_report_files)
  have none: "report_files objects = [] \<Longrightarrow> latest_of objects = None"
    by (simp add: latest_of_None)
  have some: "report_files objects \<noteq> [] \<Longrightarrow>
      \<exists>l \<in> set (report_files objects).
        (\<forall>obj \<in> set (report_files objects). time_created obj \<le> time_created l) \<and>
        latest_of objects = Some l"
  proof -
    assume "report_files objects \<noteq> []"
    then obtain l where l: "latest_of objects = Some l"
      using latest_of_None[of objects] by (cases "latest_of objects") auto
    with latest_of_Some[OF l] show ?thesis by blast
  qed
  show ?thesis
  proof (intro conjI impI)
    assume "lo namespace bucket_name prefix = Inr objects" "matching prefix objects \<noteq> []"
    then show "\<exists>l \<in> set (matching prefix objects).
                  (\<forall>obj \<in> set (matching prefix objects). time_created obj \<le> time_created l) \<and>
                  get_latest_report_filename lo namespace bucket_name prefix = Inr (Some (name l))"
      using some by (auto simp: m filename_of_listing)
  next
    assume "lo namespace bucket_name prefix = Inr objects" "matching prefix objects = []"
    then show "get_latest_report_filename lo namespace bucket_name prefix = Inr None"
      using none by (simp add: m filename_of_listing)
  next
    assume a: "prefix = prefix_weekly \<and> config s ''NAMESPACE'' = Some namespace \<and>
          config s ''REPORT_BUCKET_NAME'' = Some bucket_name \<and>
          list_objects w namespace bucket_name prefix_weekly = Inr objects"
       and ne: "matching prefix objects \<noteq> []"
    from a have f: "fst (get_latest_report_file w s) = Inr (latest_of objects)"
      by (simp add: file_of_listing)
    from ne[unfolded m] f show "\<exists>l \<in> set (matching prefix objects).
                  (\<forall>obj \<in> set (matching prefix objects). time_created obj \<le> time_created l) \<and>
                  fst (get_latest_report_file w s) = Inr (Some l)"
      unfolding m f using some by auto
  next
    assume a: "prefix = prefix_weekly \<and> config s ''NAMESPACE'' = Some namespace \<and>
          config s ''REPORT_BUCKET_NAME'' = Some bucket_name \<and>
          list_objects w namespace bucket_name prefix_weekly = Inr objects"
       and e: "matching prefix objects = []"
    from a have f: "fst (get_latest_report_file w s) = Inr (latest_of objects)"
      by (simp add: file_of_listing)
    from e[unfolded m] f show "fst (get_latest_report_file w s) = Inr None"
      using none by simp
  qed
qed

lemma example_config:
  "parse_config example_lines ''NAMESPACE'' = Some ''ns'' \<and>
   parse_config example_lines ''REPORT_BUCKET_NAME'' = Some ''reports'' \<and>
   missing_keys (parse_config example_lines) = []"
  by (simp add: missing_keys_def parse_config_def example_lines_def config_line_def strip_def
        is_space_def startswith_def required_keys_def unset_def)

lemma example_matching:
  "(\<forall>obj \<in> set example_objects. startswith (name obj) prefix_weekly) \<and>
   matching prefix_weekly example_objects = example_objects"
  by (simp add: example_objects_def matching_def startswith_def endswith_def prefix_weekly_def)

text \<open>The scenario of the spec: of the two reports the later one is located.\<close>

theorem locator_returns_latest_witness:
  "list_all (\<lambda>obj. startswith (name obj) prefix_weekly) example_objects \<and>
   list_objects example_world ''ns'' ''reports'' prefix_weekly = Inr example_objects \<and>
   matching prefix_weekly example_objects \<noteq> [] \<and>
   (\<exists>l \<in> set (matching prefix_weekly example_objects).
      (\<forall>obj \<in> set (matching prefix_weekly example_objects). time_created obj \<le> time_created l) \<and>
      get_latest_report_filename (list_objects example_world) ''ns'' ''reports'' prefix_weekly
        = Inr (Some (name l))) \<and>
   (\<exists>l \<in> set (matching prefix_weekly example_objects).
      (\<forall>obj \<in> set (matching prefix_weekly example_objects). time_created obj \<le> time_created l) \<and>
      fst (get_latest_report_file example_world
             ((start NoFile)\<lparr>config := parse_config example_lines\<rparr>)) = Inr (Some l))"
proof -
  have h: "\<forall>obj \<in> set example_objects. startswith (name obj) prefix_weekly"
    using example_matching by blast
  have l: "list_objects example_world ''ns'' ''reports'' prefix_weekly = Inr example_objects"
    by (simp add: example_world_def)
  have ne: "matching prefix_weekly example_objects \<noteq> []"
    using example_matching by (simp add: example_objects_def)
  have c: "config ((start NoFile)\<lparr>config := parse_config example_lines\<rparr>) ''NAMESPACE'' = Some ''ns''"
          "config ((start NoFile)\<lparr>config := parse_config example_lines\<rparr>) ''REPORT_BUCKET_NAME''
             = Some ''reports''"
    using example_config by simp_all
  from locator_returns_latest[OF h, of "list_objects example_world" "''ns''" "''reports''"
         "(start NoFile)\<lparr>config := parse_config example_lines\<rparr>" example_world] h l ne c
  show ?thesis unfolding list_all_iff by blast
qed

lemma scenario_two_reports:
  "get_latest_report_filename (list_objects example_world) ''ns'' ''reports'' prefix_weekly
     = Inr (Some ''WeeklyCostsScheduledReport_20240108.csv.gz'')"
  by (simp add: get_latest_report_filename_def example_world_def example_objects_def
        report_files_def endswith_def latest_of_def sort_reverse_def)


section \<open>Properties of the polling program\<close>

subsection \<open>What each step leaves unchanged\<close>

lemmas step_defs = bind_io_def config_item_def call_def call_for_def emit_def Let_def

lemma locate_frame:
  "same_store s (snd (get_latest_report_file w s)) \<and>
   count_sent (trace (snd (get_latest_report_file w s))) = count_sent (trace s) \<and>
   count_transmitted (trace (snd (get_latest_report_file w s))) = count_transmitted (trace s)"
  by (auto simp: get_latest_report_file_def step_defs same_store_def count_sent_def
           count_transmitted_def split: option.splits sum.splits prod.splits)

text \<open>The located object depends on the configuration and on the bucket only.\<close>

lemma locate_pure:
  "config s' = config s \<Longrightarrow> list_objects w' = list_objects w \<Longrightarrow>
   fst (get_latest_report_file w' s') = fst (get_latest_report_file w s)"
  by (auto simp: get_latest_report_file_def step_defs split: option.splits sum.splits prod.splits)

lemma download_frame:
  "same_store s (snd (download_file w n s)) \<and>
   count_sent (trace (snd (download_file w n s))) = count_sent (trace s) \<and>
   count_transmitted (trace (snd (download_file w n s))) = count_transmitted (trace s)"
  by (auto simp: download_file_def step_defs same_store_def count_sent_def
           count_transmitted_def split: option.splits sum.splits prod.splits)

text \<open>
  \<open>send_email\<close> transmits at most once, and completes only after a transmission.
\<close>

lemma send_email_frame:
  "same_store s (snd (send_email L w n d s)) \<and>
   count_sent (trace (snd (send_email L w n d s))) =
     count_sent (trace s) + (case fst (send_email L w n d s) of Inl e \<Rightarrow> 0 | Inr u \<Rightarrow> 1) \<and>
   count_transmitted (trace (snd (send_email L w n d s))) \<le> Suc (count_transmitted (trace s)) \<and>
   (case fst (send_email L w n d s) of
      Inl e \<Rightarrow> True
    | Inr u \<Rightarrow> count_transmitted (trace (snd (send_email L w n d s)))
                = Suc (count_transmitted (trace s)))"
  by (auto simp: send_email_def get_secret_def step_defs same_store_def count_sent_def
           count_transmitted_def
           split: option.splits sum.splits prod.splits smtp_outcome.splits)

lemma mark_frame:
  "config (mark_file_as_sent L w s n t) = config s \<and>
   sent_files (mark_file_as_sent L w s n t) =
     (sent_files s)(file_hash L n t \<mapsto>
        \<lparr>rec_file_name = n, rec_time_created = str_of L t, rec_sent_at = now_isoformat w\<rparr>) \<and>
   count_sent (trace (mark_file_as_sent L w s n t)) = count_sent (trace s) \<and>
   count_transmitted (trace (mark_file_as_sent L w s n t)) = count_transmitted (trace s) \<and>
   ledger_file (mark_file_as_sent L w s n t) =
     (case write_ledger w of
        WriteOk \<Rightarrow> Stored (sent_files (mark_file_as_sent L w s n t))
      | OpenFailed \<Rightarrow> ledger_file s
      | WriteFailed \<Rightarrow> Unreadable)"
  by (auto simp: mark_file_as_sent_def save_sent_files_def emit_def Let_def count_sent_def
           count_transmitted_def split: write_outcome.splits)

lemma load_config_frame:
  "sent_files (snd (load_config w s)) = sent_files s \<and>
   ledger_file (snd (load_config w s)) = ledger_file s \<and>
   count_sent (trace (snd (load_config w s))) = count_sent (trace s) \<and>
   count_transmitted (trace (snd (load_config w s))) = count_transmitted (trace s)"
  by (auto simp: load_config_def emit_def Let_def count_sent_def count_transmitted_def
           split: option.splits)

lemma load_config_Inr:
  "fst (load_config w s) = Inr cfg \<Longrightarrow>
   \<exists>lines. config_file w = Some lines \<and> cfg = parse_config lines \<and> missing_keys cfg = []"
  by (auto simp: load_config_def Let_def split: option.splits if_splits)

subsection \<open>The outcomes of \<open>run\<close>, of \<open>__init__\<close> and of \<open>main\<close>\<close>

text \<open>
  In a run either \<open>send_email\<close> completes once, the run returns and has recorded the
  located object; or it does not complete, and ledger and ledger file are as they were.
  A message is transmitted at most once, and not at all when the located object is
  already in the ledger.
\<close>

lemma run_cases:
  assumes "run L w s = (r, s')"
  shows "(r = Returned \<and> count_sent (trace s') = Suc (count_sent (trace s)) \<and>
          count_transmitted (trace s') = Suc (count_transmitted (trace s)) \<and> config s' = config s \<and>
          (\<exists>l. fst (get_latest_report_file w s) = Inr (Some l) \<and>
               \<not> is_file_already_sent L s (name l) (time_created l) \<and>
               sent_files s' = (sent_files s)(file_hash L (name l) (time_created l) \<mapsto>
                 \<lparr>rec_file_name = name l, rec_time_created = str_of L (time_created l),
                  rec_sent_at = now_isoformat w\<rparr>) \<and>
               ledger_file s' = (case write_ledger w of WriteOk \<Rightarrow> Stored (sent_files s')
                                 | OpenFailed \<Rightarrow> ledger_file s | WriteFailed \<Rightarrow> Unreadable)))
       \<or> (count_sent (trace s') = count_sent (trace s) \<and> same_store s s' \<and>
           count_transmitted (trace s') \<le> Suc (count_transmitted (trace s)) \<and>
           ((\<exists>l. fst (get_latest_report_file w s) = Inr (Some l) \<and>
                 is_file_already_sent L s (name l) (time_created l)) \<longrightarrow>
              count_transmitted (trace s') = count_transmitted (trace s)))"
proof -
  obtain r1 s1 where g: "get_latest_report_file w s = (r1, s1)"
    by (cases "get_latest_report_file w s")
  from locate_frame[of s w] g
  have f1: "same_store s s1" "count_sent (trace s1) = count_sent (trace s)"
    "count_transmitted (trace s1) = count_transmitted (trace s)" by auto
  show ?thesis
  proof (cases r1)
    case (Inl e)
    with assms g f1 show ?thesis by (auto simp: run_def)
  next
    case (Inr lo)
    note r1 = this
    show ?thesis
    proof (cases lo)
      case None
      with r1 assms g f1 show ?thesis by (auto simp: run_def)
    next
      case (Some l)
      show ?thesis
      proof (cases "is_file_already_sent L s1 (name l) (time_created l)")
        case True
        with Some r1 assms g f1 show ?thesis by (auto simp: run_def)
      next
        case False
        then have ns: "\<not> is_file_already_sent L s (name l) (time_created l)"
          using f1 by (simp add: is_file_already_sent_def same_store_def)
        have gl: "fst (get_latest_report_file w s) = Inr (Some l)"
          using g r1 Some by simp
        obtain r2 s2 where d: "download_file w (name l) s1 = (r2, s2)"
          by (cases "download_file w (name l) s1")
        from download_frame[of s1 w "name l"] d
        have f2: "same_store s1 s2" "count_sent (trace s2) = count_sent (trace s1)"
          "count_transmitted (trace s2) = count_transmitted (trace s1)" by auto
        show ?thesis
        proof (cases r2)
          case (Inl e)
          with False Some r1 assms g d have "s' = s2" by (auto simp: run_def)
          with ns gl f1 f2 show ?thesis by (auto simp: same_store_def)
        next
          case (Inr data)
          note r2 = this
          obtain r3 s3 where m: "send_email L w (name l) data s2 = (r3, s3)"
            by (cases "send_email L w (name l) data s2")
          from send_email_frame[of s2 L w "name l" data] m
          have f3: "same_store s2 s3"
            "count_sent (trace s3) = count_sent (trace s2) + (case r3 of Inl e \<Rightarrow> 0 | Inr u \<Rightarrow> 1)"
            "count_transmitted (trace s3) \<le> Suc (count_transmitted (trace s2))"
            "case r3 of Inl e \<Rightarrow> True
             | Inr u \<Rightarrow> count_transmitted (trace s3) = Suc (count_transmitted (trace s2))"
            by (auto split: sum.splits)
          show ?thesis
          proof (cases r3)
            case (Inl e)
            with False Some r1 r2 assms g d m have "s' = s3" by (auto simp: run_def)
            with ns gl f1 f2 f3 Inl show ?thesis by (auto simp: same_store_def)
          next
            case (Inr u)
            from False Some r1 r2 Inr assms g d m
            have r: "r = Returned"
              and s': "s' = mark_file_as_sent L w s3 (name l) (time_created l)"
              by (auto simp: run_def)
            from gl show ?thesis
              using r s' ns f1 f2 f3 Inr mark_frame[of L w s3 "name l" "time_created l"]
              by (auto simp: same_store_def split: write_outcome.splits)
          qed
        qed
      qed
    qed
  qed
qed

lemma init_frame:
  assumes "init w (start f) = (r, s)"
  shows "ledger_file s = f \<and> count_sent (trace s) = 0 \<and> count_transmitted (trace s) = 0"
  using assms load_config_frame[of w "start f"]
  apply (cases "load_config w (start f)")
  apply (auto simp: init_def step_defs load_sent_files_def count_sent_def count_transmitted_def
           start_def split: option.splits sum.splits prod.splits ledger_file.splits)
  done

lemma init_Inr:
  assumes "init w (start f) = (Inr u, s)"
  shows "\<exists>lines. config_file w = Some lines \<and> config s = parse_config lines \<and>
           missing_keys (parse_config lines) = [] \<and>
           sent_files s = (case f of Stored m \<Rightarrow> m | _ \<Rightarrow> Map.empty)"
  using assms load_config_frame[of w "start f"] load_config_Inr[of w "start f"]
  apply (cases "load_config w (start f)")
  apply (auto simp: init_def step_defs load_sent_files_def count_sent_def start_def
           split: option.splits sum.splits prod.splits ledger_file.splits)
  done

text \<open>Whether \<open>__init__\<close> raises, and what, does not depend on the ledger file.\<close>

lemma init_outcome:
  "fst (init w (start f)) = fst (init w (start NoFile))"
  by (auto simp: init_def load_config_def step_defs load_sent_files_def start_def
           split: option.splits sum.splits prod.splits ledger_file.splits)

lemma main_cases:
  assumes "main L w f = (c, s')"
  shows "(count_sent (trace s') = 0 \<and> ledger_file s' = f \<and> count_transmitted (trace s') \<le> 1)
       \<or> (count_sent (trace s') = 1 \<and> count_transmitted (trace s') = 1 \<and>
           (\<exists>lines l s. config_file w = Some lines \<and> config s = parse_config lines \<and>
              fst (get_latest_report_file w s) = Inr (Some l) \<and>
              sent_files s' (file_hash L (name l) (time_created l)) \<noteq> None \<and>
              ledger_file s' = (case write_ledger w of WriteOk \<Rightarrow> Stored (sent_files s')
                                | OpenFailed \<Rightarrow> f | WriteFailed \<Rightarrow> Unreadable)))"
proof -
  obtain r s where i: "init w (start f) = (r, s)" by (cases "init w (start f)")
  from init_frame[OF i]
  have f0: "ledger_file s = f" "count_sent (trace s) = 0" "count_transmitted (trace s) = 0"
    by auto
  show ?thesis
  proof (cases r)
    case (Inl e)
    with assms i f0 show ?thesis by (auto simp: main_def)
  next
    case (Inr u)
    with i init_Inr[of w f u s] obtain lines where
      l: "config_file w = Some lines" "config s = parse_config lines" by auto
    obtain e s2 where r: "run L w s = (e, s2)" by (cases "run L w s")
    with assms i Inr have s': "s' = s2" by (auto simp: main_def split: ending.splits)
    from run_cases[OF r] show ?thesis
    proof
      assume a: "e = Returned \<and> count_sent (trace s2) = Suc (count_sent (trace s)) \<and>
          count_transmitted (trace s2) = Suc (count_transmitted (trace s)) \<and>
          config s2 = config s \<and>
          (\<exists>l. fst (get_latest_report_file w s) = Inr (Some l) \<and>
               \<not> is_file_already_sent L s (name l) (time_created l) \<and>
               sent_files s2 = (sent_files s)(file_hash L (name l) (time_created l) \<mapsto>
                 \<lparr>rec_file_name = name l, rec_time_created = str_of L (time_created l),
                  rec_sent_at = now_isoformat w\<rparr>) \<and>
               ledger_file s2 = (case write_ledger w of WriteOk \<Rightarrow> Stored (sent_files s2)
                                 | OpenFailed \<Rightarrow> ledger_file s | WriteFailed \<Rightarrow> Unreadable))"
      then obtain l where
        g: "fst (get_latest_report_file w s) = Inr (Some l)" and
        sf: "sent_files s2 = (sent_files s)(file_hash L (name l) (time_created l) \<mapsto>
                 \<lparr>rec_file_name = name l, rec_time_created = str_of L (time_created l),
                  rec_sent_at = now_isoformat w\<rparr>)" and
        lf: "ledger_file s2 = (case write_ledger w of WriteOk \<Rightarrow> Stored (sent_files s2)
                                 | OpenFailed \<Rightarrow> ledger_file s | WriteFailed \<Rightarrow> Unreadable)"
        by blast
      from sf have "sent_files s2 (file_hash L (name l) (time_created l)) \<noteq> None" by simp
      moreover from a f0 have "count_sent (trace s2) = 1" "count_transmitted (trace s2) = 1"
        by simp_all
      ultimately have "count_sent (trace s') = 1 \<and> count_transmitted (trace s') = 1 \<and>
           (\<exists>lines l s. config_file w = Some lines \<and> config s = parse_config lines \<and>
              fst (get_latest_report_file w s) = Inr (Some l) \<and>
              sent_files s' (file_hash L (name l) (time_created l)) \<noteq> None \<and>
              ledger_file s' = (case write_ledger w of WriteOk \<Rightarrow> Stored (sent_files s')
                                | OpenFailed \<Rightarrow> f | WriteFailed \<Rightarrow> Unreadable))"
        using l g lf f0 s' by blast
      then show ?thesis ..
    next
      assume "count_sent (trace s2) = count_sent (trace s) \<and> same_store s s2 \<and>
           count_transmitted (trace s2) \<le> Suc (count_transmitted (trace s)) \<and>
           ((\<exists>l. fst (get_latest_report_file w s) = Inr (Some l) \<and>
                 is_file_already_sent L s (name l) (time_created l)) \<longrightarrow>
              count_transmitted (trace s2) = count_transmitted (trace s))"
      with f0 s' show ?thesis by (simp add: same_store_def)
    qed
  qed
qed

text \<open>A write that fails at \<open>open\<close> leaves the ledger file as the process found it.\<close>

lemma main_unsaved:
  assumes "write_ledger w = OpenFailed"
  shows "ledger_file (snd (main L w f)) = f"
  using main_cases[of L w f "fst (main L w f)" "snd (main L w f)"] assms by auto

text \<open>
  A process that finds the located object in the ledger file transmits nothing.
\<close>

lemma main_already_sent:
  assumes m: "main L w (Stored m) = (c, s')"
      and cf: "config_file w = Some lines"
      and g: "\<And>s. config s = parse_config lines \<Longrightarrow>
                 fst (get_latest_report_file w s) = Inr (Some l)"
      and sent: "m (file_hash L (name l) (time_created l)) \<noteq> None"
  shows "count_sent (trace s') = 0 \<and> count_transmitted (trace s') = 0 \<and>
         ledger_file s' = Stored m"
proof -
  obtain r s where i: "init w (start (Stored m)) = (r, s)"
    by (cases "init w (start (Stored m))")
  from init_frame[OF i]
  have f0: "ledger_file s = Stored m" "count_sent (trace s) = 0"
    "count_transmitted (trace s) = 0" by auto
  show ?thesis
  proof (cases r)
    case (Inl e)
    with m i f0 show ?thesis by (auto simp: main_def)
  next
    case (Inr u)
    with i init_Inr[of w "Stored m" u s] cf have
      c: "config s = parse_config lines" and sf: "sent_files s = m" by auto
    obtain e s2 where r: "run L w s = (e, s2)" by (cases "run L w s")
    with m i Inr have s': "s' = s2" by (auto simp: main_def split: ending.splits)
    have "is_file_already_sent L s (name l) (time_created l)"
      using sent sf by (simp add: is_file_already_sent_def)
    with run_cases[OF r] g[OF c]
    have "count_sent (trace s2) = count_sent (trace s) \<and> same_store s s2 \<and>
          count_transmitted (trace s2) = count_transmitted (trace s)" by auto
    with f0 s' show ?thesis by (simp add: same_store_def)
  qed
qed

subsection \<open>The example, evaluated\<close>

lemma example_parse:
  "parse_config example_lines =
     [''NAMESPACE'' \<mapsto> ''ns'', ''REPORT_BUCKET_NAME'' \<mapsto> ''reports'', ''EMAIL_SENDER'' \<mapsto> ''a@x'',
      ''EMAIL_RECIPIENT'' \<mapsto> ''b@x'', ''SMTP_USERNAME_SECRET_OCID'' \<mapsto> ''ocid1.u'',
      ''SMTP_PASSWORD_SECRET_OCID'' \<mapsto> ''ocid1.p'', ''SMTP_SERVER'' \<mapsto> ''smtp.x'',
      ''SMTP_PORT'' \<mapsto> ''587'']"
  by (simp add: parse_config_def example_lines_def config_line_def strip_def
        is_space_def startswith_def)

lemma example_init:
  "fst (init example_world (start NoFile)) = Inr () \<and>
   sent_files (snd (init example_world (start NoFile))) = Map.empty"
  by (simp add: init_def load_config_def load_sent_files_def bind_io_def call_def emit_def
        start_def example_world_def example_parse missing_keys_def required_keys_def unset_def
        Let_def)

lemma example_run:
  "fst (run example_lib example_world example_state) = Returned \<and>
   count_sent (trace (snd (run example_lib example_world example_state))) = 1"
  by code_simp

lemma example_main:
  "fst (main example_lib example_world NoFile) = 0 \<and>
   count_sent (trace (snd (main example_lib example_world NoFile))) = 1 \<and>
   count_transmitted (trace (snd (main example_lib example_world NoFile))) = 1"
  by code_simp

lemma example_readonly:
  "fst (main example_lib readonly_world (Stored old_ledger)) = 0 \<and>
   count_sent (trace (snd (main example_lib readonly_world (Stored old_ledger)))) = 1 \<and>
   write_ledger readonly_world = OpenFailed"
  by code_simp

lemma example_lost_quit:
  "write_ledger lost_quit_world = WriteOk \<and>
   fst (main example_lib lost_quit_world NoFile) = 1 \<and>
   count_transmitted (trace (snd (main example_lib lost_quit_world NoFile))) = 1 \<and>
   count_transmitted (trace (snd (main example_lib lost_quit_world
      (ledger_file (snd (main example_lib lost_quit_world NoFile)))))) = 1"
  by code_simp

subsection \<open>The claims\<close>

text \<open>
  Claim C2, as stated, fails in two ways. First, \<open>save_sent_files\<close> logs a failed
  write and goes on: with a ledger file that cannot be opened for writing the file stays
  exactly as it was, the first process dispatches the report and exits with code 0, and
  the second process dispatches the same report again. Second, when the server has
  taken the message and the session then raises, \<open>send_email\<close> raises,
  \<open>mark_file_as_sent\<close> is not reached, and the second process transmits the report
  again, with every write of the ledger working.
\<close>

theorem two_runs_one_email_counterexample:
  "write_ledger readonly_world = OpenFailed \<and>
   ledger_file (snd (main example_lib readonly_world (Stored old_ledger))) = Stored old_ledger \<and>
   fst (main example_lib readonly_world (Stored old_ledger)) = 0 \<and>
   count_sent (trace (snd (main example_lib readonly_world (Stored old_ledger)))) = 1 \<and>
   count_sent (trace (snd (main example_lib readonly_world
      (ledger_file (snd (main example_lib readonly_world (Stored old_ledger))))))) = 1 \<and>
   write_ledger lost_quit_world = WriteOk \<and>
   fst (main example_lib lost_quit_world NoFile) = 1 \<and>
   count_transmitted (trace (snd (main example_lib lost_quit_world NoFile))) = 1 \<and>
   count_transmitted (trace (snd (main example_lib lost_quit_world
      (ledger_file (snd (main example_lib lost_quit_world NoFile)))))) = 1"
proof -
  have f: "ledger_file (snd (main example_lib readonly_world (Stored old_ledger)))
             = Stored old_ledger"
    using example_readonly by (simp add: main_unsaved)
  show ?thesis unfolding f using f example_readonly example_lost_quit by simp
qed

text \<open>
  Claim C2, amended. Two processes of the polling program run one after the other, the
  second starting from the ledger file the first has left; the ledger file is absent,
  not loadable, or a ledger the program has written. The bucket is unchanged (the same
  configuration file, the same answers of the listing call); the write of the ledger by
  the first process completes; and in the first process no exception follows a
  transmission (every transmitted message is one whose \<open>send_email\<close> has completed).
  Every other collaborator may answer differently in the two runs. Then at most one
  email is transmitted in all; and when the first process has transmitted one, the
  second transmits none and leaves the ledger file as it is.
\<close>

theorem two_runs_one_email:
  assumes r1: "main L w1 f0 = (c1, s1)"
      and r2: "main L w2 (ledger_file s1) = (c2, s2)"
      and same_cfg: "config_file w2 = config_file w1"
      and same_bucket: "list_objects w2 = list_objects w1"
      and saved: "write_ledger w1 = WriteOk"
      and completed: "count_transmitted (trace s1) = count_sent (trace s1)"
  shows "count_transmitted (trace s1) + count_transmitted (trace s2) \<le> 1 \<and>
         (count_transmitted (trace s1) = 1 \<longrightarrow>
            count_transmitted (trace s2) = 0 \<and> count_sent (trace s2) = 0 \<and>
            ledger_file s2 = ledger_file s1)"
proof -
  from main_cases[OF r1] show ?thesis
  proof
    assume "count_sent (trace s1) = 0 \<and> ledger_file s1 = f0 \<and> count_transmitted (trace s1) \<le> 1"
    with completed have "count_transmitted (trace s1) = 0" by simp
    moreover from main_cases[OF r2] have "count_transmitted (trace s2) \<le> 1" by auto
    ultimately show ?thesis by simp
  next
    assume "count_sent (trace s1) = 1 \<and> count_transmitted (trace s1) = 1 \<and>
           (\<exists>lines l s. config_file w1 = Some lines \<and> config s = parse_config lines \<and>
              fst (get_latest_report_file w1 s) = Inr (Some l) \<and>
              sent_files s1 (file_hash L (name l) (time_created l)) \<noteq> None \<and>
              ledger_file s1 = (case write_ledger w1 of WriteOk \<Rightarrow> Stored (sent_files s1)
                                | OpenFailed \<Rightarrow> f0 | WriteFailed \<Rightarrow> Unreadable))"
    then obtain lines l s where
      one: "count_transmitted (trace s1) = 1" and cf: "config_file w1 = Some lines" and
      c: "config s = parse_config lines" and
      g: "fst (get_latest_report_file w1 s) = Inr (Some l)" and
      sent: "sent_files s1 (file_hash L (name l) (time_created l)) \<noteq> None" and
      lf: "ledger_file s1 = Stored (sent_files s1)"
      using saved by auto
    have g2: "\<And>t. config t = parse_config lines \<Longrightarrow>
                fst (get_latest_report_file w2 t) = Inr (Some l)"
      using locate_pure[OF _ same_bucket, of _ s] c g by simp
    from main_already_sent[OF r2[unfolded lf] _ g2 sent] cf same_cfg
    have "count_sent (trace s2) = 0 \<and> count_transmitted (trace s2) = 0 \<and>
          ledger_file s2 = Stored (sent_files s1)" by simp
    with one lf show ?thesis by simp
  qed
qed

text \<open>In the example the first process dispatches the email and the second none.\<close>

theorem two_runs_one_email_witness:
  "write_ledger example_world = WriteOk \<and>
   count_transmitted (trace (snd (main example_lib example_world NoFile)))
     = count_sent (trace (snd (main example_lib example_world NoFile))) \<and>
   count_transmitted (trace (snd (main example_lib example_world NoFile))) = 1 \<and>
   count_transmitted (trace (snd (main example_lib example_world
      (ledger_file (snd (main example_lib example_world NoFile)))))) = 0"
proof -
  let ?m1 = "main example_lib example_world NoFile"
  let ?m2 = "main example_lib example_world (ledger_file (snd ?m1))"
  have w: "write_ledger example_world = WriteOk" by (simp add: example_world_def)
  have one: "count_transmitted (trace (snd ?m1)) = 1" "count_sent (trace (snd ?m1)) = 1"
    using example_main by simp_all
  from two_runs_one_email[of example_lib example_world NoFile "fst ?m1" "snd ?m1"
         example_world "fst ?m2" "snd ?m2"] w one
  show ?thesis by simp
qed

text \<open>
  Claim C3. In a run the ledger gets its record exactly on a successful dispatch, that
  is, when \<open>send_email\<close> completes without an exception. Either it completes once,
  the run returns, and the ledger is the old one with the record of the located object
  under its fingerprint, which was not there before; the ledger file then holds this
  ledger when the write completes. Or it does not complete, and ledger and ledger file
  are unchanged: this is the case whenever the run ends in \<open>sys.exit\<close>, as it does
  when the download or the send raises.
\<close>

theorem record_exactly_on_dispatch:
  assumes "run L w s = (r, s')"
  shows "((count_sent (trace s') = Suc (count_sent (trace s)) \<and> r = Returned \<and>
           (\<exists>l. fst (get_latest_report_file w s) = Inr (Some l) \<and>
                sent_files s (file_hash L (name l) (time_created l)) = None \<and>
                sent_files s' = (sent_files s)(file_hash L (name l) (time_created l) \<mapsto>
                  \<lparr>rec_file_name = name l, rec_time_created = str_of L (time_created l),
                   rec_sent_at = now_isoformat w\<rparr>) \<and>
                (write_ledger w = WriteOk \<longrightarrow> ledger_file s' = Stored (sent_files s'))))
          \<or> (count_sent (trace s') = count_sent (trace s) \<and>
              sent_files s' = sent_files s \<and> ledger_file s' = ledger_file s)) \<and>
         (r \<noteq> Returned \<longrightarrow>
            count_sent (trace s') = count_sent (trace s) \<and>
            sent_files s' = sent_files s \<and> ledger_file s' = ledger_file s)"
  using run_cases[OF assms]
  by (auto simp: same_store_def is_file_already_sent_def)

theorem record_exactly_on_dispatch_witness:
  "run example_lib example_world example_state =
     (Returned, snd (run example_lib example_world example_state)) \<and>
   count_sent (trace (snd (run example_lib example_world example_state))) = 1 \<and>
   (\<exists>l. fst (get_latest_report_file example_world example_state) = Inr (Some l) \<and>
        sent_files (snd (run example_lib example_world example_state))
          (file_hash example_lib (name l) (time_created l)) \<noteq> None)"
proof -
  let ?r = "run example_lib example_world example_state"
  have e: "?r = (Returned, snd ?r)" using example_run by (cases ?r) simp
  have c: "count_sent (trace (snd ?r)) = 1" using example_run by simp
  have z: "count_sent (trace example_state) = 0"
    by (simp add: example_state_def start_def count_sent_def)
  from record_exactly_on_dispatch[OF e] c z
  have "\<exists>l. fst (get_latest_report_file example_world example_state) = Inr (Some l) \<and>
        sent_files (snd ?r) = (sent_files example_state)
          (file_hash example_lib (name l) (time_created l) \<mapsto>
             \<lparr>rec_file_name = name l, rec_time_created = str_of example_lib (time_created l),
              rec_sent_at = now_isoformat example_world\<rparr>)"
    by auto
  then have "\<exists>l. fst (get_latest_report_file example_world example_state) = Inr (Some l) \<and>
        sent_files (snd ?r) (file_hash example_lib (name l) (time_created l)) \<noteq> None"
    by auto
  with e c show ?thesis by blast
qed

text \<open>
  Claim C4. After \<open>mark_file_as_sent\<close> for a name and a creation time,
  \<open>is_file_already_sent\<close> for the same two is true. With no ledger file, or with one
  that cannot be loaded, \<open>load_sent_files\<close> returns the empty ledger; \<open>__init__\<close>
  raises or not as it does without the file; and in the sender it builds
  \<open>is_file_already_sent\<close> is false for every name and creation time.
\<close>

theorem ledger_round_trip:
  "is_file_already_sent L (mark_file_as_sent L w s file_name t) file_name t \<and>
   (f = NoFile \<or> f = Unreadable \<longrightarrow>
      fst (load_sent_files (s\<lparr>ledger_file := f\<rparr>)) = Map.empty \<and>
      fst (init w (start f)) = fst (init w (start NoFile)) \<and>
      (init w (start f) = (Inr u, s') \<longrightarrow> \<not> is_file_already_sent L s' file_name' t'))"
proof (intro conjI impI)
  show "is_file_already_sent L (mark_file_as_sent L w s file_name t) file_name t"
    using mark_frame[of L w s file_name t] by (simp add: is_file_already_sent_def)
next
  assume "f = NoFile \<or> f = Unreadable"
  then show "fst (load_sent_files (s\<lparr>ledger_file := f\<rparr>)) = Map.empty"
    by (auto simp: load_sent_files_def emit_def Let_def)
next
  show "fst (init w (start f)) = fst (init w (start NoFile))" by (rule init_outcome)
next
  assume f: "f = NoFile \<or> f = Unreadable" and i: "init w (start f) = (Inr u, s')"
  from init_Inr[OF i] f have "sent_files s' = Map.empty" by auto
  then show "\<not> is_file_already_sent L s' file_name' t'"
    by (simp add: is_file_already_sent_def)
qed

theorem ledger_round_trip_witness:
  "is_file_already_sent example_lib
     (mark_file_as_sent example_lib example_world example_state ''report.csv.gz'' 1)
     ''report.csv.gz'' 1 \<and>
   init example_world (start NoFile) = (Inr (), snd (init example_world (start NoFile))) \<and>
   \<not> is_file_already_sent example_lib (snd (init example_world (start NoFile)))
       ''report.csv.gz'' 1"
proof -
  let ?i = "init example_world (start NoFile)"
  have i: "?i = (Inr (), snd ?i)" using example_init by (cases ?i) simp
  from ledger_round_trip[of example_lib example_world example_state "''report.csv.gz''" 1
         NoFile "()" "snd ?i" "''report.csv.gz''" 1] i
  show ?thesis by simp
qed

text \<open>
  Claim C9. The fingerprint is the digest of the name, an underscore and the printed
  creation time, joined. So two pairs with the same joined string have the same
  fingerprint, and once one is marked as sent the other is taken as already sent. The
  pairs \<open>("a_b", "c")\<close> and \<open>("a", "b_c")\<close> are such pairs.
\<close>

theorem fingerprint_of_concatenation:
  "file_hash L file_name t = md5_hexdigest L (file_name @ ''_'' @ str_of L t) \<and>
   (n1 @ ''_'' @ str_of L t1 = n2 @ ''_'' @ str_of L t2 \<longrightarrow>
      file_hash L n1 t1 = file_hash L n2 t2 \<and>
      is_file_already_sent L (mark_file_as_sent L w s n1 t1) n2 t2)"
proof (intro conjI impI)
  show "file_hash L file_name t = md5_hexdigest L (file_name @ ''_'' @ str_of L t)"
    by (simp add: file_hash_def file_key_def)
next
  assume "n1 @ ''_'' @ str_of L t1 = n2 @ ''_'' @ str_of L t2"
  then show h: "file_hash L n1 t1 = file_hash L n2 t2"
    by (simp add: file_hash_def file_key_def)
  show "is_file_already_sent L (mark_file_as_sent L w s n1 t1) n2 t2"
    using mark_frame[of L w s n1 t1] h by (simp add: is_file_already_sent_def)
qed

theorem fingerprint_of_concatenation_witness:
  "(''a_b'', ''c'') \<noteq> (''a'', ''b_c'') \<and>
   ''a_b'' @ ''_'' @ str_of example_text_lib ''c'' = ''a'' @ ''_'' @ str_of example_text_lib ''b_c'' \<and>
   file_hash example_text_lib ''a_b'' ''c'' = file_hash example_text_lib ''a'' ''b_c'' \<and>
   is_file_already_sent example_text_lib
     (mark_file_as_sent example_text_lib example_world example_state ''a_b'' ''c'') ''a'' ''b_c''"
proof -
  have j: "''a_b'' @ ''_'' @ str_of example_text_lib ''c''
             = ''a'' @ ''_'' @ str_of example_text_lib ''b_c''"
    by (simp add: example_text_lib_def)
  from fingerprint_of_concatenation[of example_text_lib "''a''" "''c''" "''a_b''" "''c''"
         "''a''" "''b_c''" example_world example_state] j
  show ?thesis by simp
qed


section \<open>Properties of the event handler\<close>

lemmas hstep_defs = bind_io_def hcall_def raised_def Let_def

lemma authenticate_trace:
  "set (snd (authenticate w [])) \<subseteq> {ResourcePrincipalsSigner, ConfigFromFile, NewSigner}"
  by (auto simp: authenticate_def hstep_defs split: option.splits sum.splits prod.splits)

lemma authenticate_count: "count_sent (snd (authenticate w tr)) = count_sent tr"
  by (auto simp: authenticate_def hstep_defs count_sent_def
           split: option.splits sum.splits prod.splits)

text \<open>
  Past the check, the handler completes one send and succeeds, or raises and has
  completed none.
\<close>

lemma deliver_shape:
  "(fst (deliver L w object_name tr) = Inr (success_result L w object_name) \<and>
    count_sent (snd (deliver L w object_name tr)) = Suc (count_sent tr))
   \<or> ((\<exists>e. fst (deliver L w object_name tr) = Inl e) \<and>
       count_sent (snd (deliver L w object_name tr)) = count_sent tr)"
  by (auto simp: deliver_def get_secret_f_def hstep_defs count_sent_def
           split: option.splits sum.splits prod.splits smtp_outcome.splits)

lemma handler_try_shape:
  "((\<exists>object_name. fst (handler_try L w data) = Inr (success_result L w object_name)) \<and>
    count_sent (snd (handler_try L w data)) = 1)
   \<or> ((\<exists>e. fst (handler_try L w data) = Inl e) \<and> count_sent (snd (handler_try L w data)) = 0)"
proof (cases "parse_input data")
  case (Inl e)
  then show ?thesis by (simp add: handler_try_def bind_io_def count_sent_def)
next
  case (Inr body)
  note p = this
  show ?thesis
  proof (cases "extract_object_name body")
    case (Inl e)
    with p show ?thesis by (simp add: handler_try_def bind_io_def count_sent_def)
  next
    case (Inr object_name)
    note n = this
    obtain r tr where a: "authenticate w [] = (r, tr)" by (cases "authenticate w []")
    with authenticate_count[of w "[]"] have c: "count_sent tr = 0" by (simp add: count_sent_def)
    show ?thesis
    proof (cases r)
      case (Inl e)
      with p n a c show ?thesis by (simp add: handler_try_def bind_io_def)
    next
      case (Inr u)
      show ?thesis
      proof (cases "missing_vars w = []")
        case False
        with p n a c Inr show ?thesis by (simp add: handler_try_def bind_io_def)
      next
        case True
        with p n a Inr have "handler_try L w data = deliver L w object_name tr"
          by (simp add: handler_try_def bind_io_def)
        with deliver_shape[of L w object_name tr] c show ?thesis by auto
      qed
    qed
  qed
qed

subsection \<open>Substrings of the error messages\<close>

lemma str_contains_self: "str_contains (k @ post) k"
proof (cases "k @ post")
  case Nil
  then show ?thesis by simp
next
  case (Cons c cs)
  have "startswith (k @ post) k" by (simp add: startswith_def)
  with Cons show ?thesis by simp
qed

lemma str_contains_mid: "str_contains (pre @ k @ post) k"
proof (induction pre)
  case Nil
  show ?case using str_contains_self[of k post] by simp
next
  case (Cons c pre)
  then show ?case by simp
qed

lemma join_mid: "x \<in> set xs \<Longrightarrow> \<exists>pre post. join sep xs = pre @ x @ post"
proof (induction sep xs rule: join.induct)
  case (1 sep)
  then show ?case by simp
next
  case (2 sep y)
  then have "join sep [y] = [] @ x @ []" by simp
  then show ?case by blast
next
  case (3 sep y z zs)
  show ?case
  proof (cases "x = y")
    case True
    then have "join sep (y # z # zs) = [] @ x @ (sep @ join sep (z # zs))" by simp
    then show ?thesis by blast
  next
    case False
    with "3.prems" have "x \<in> set (z # zs)" by simp
    with "3.IH" obtain pre post where "join sep (z # zs) = pre @ x @ post" by blast
    then have "join sep (y # z # zs) = (y @ sep @ pre) @ x @ post" by simp
    then show ?thesis by blast
  qed
qed

lemma join_contains: "x \<in> set xs \<Longrightarrow> str_contains (join sep xs) x"
  using join_mid[of x xs sep] str_contains_mid by metis

lemma repr_list_contains: "x \<in> set xs \<Longrightarrow> str_contains (repr_list xs) x"
proof -
  assume "x \<in> set xs"
  then have "[CHR 0x27] @ x @ [CHR 0x27] \<in> set (map (\<lambda>x. [CHR 0x27] @ x @ [CHR 0x27]) xs)"
    by auto
  from join_mid[OF this, of "'', ''"] obtain pre post where
    "join '', '' (map (\<lambda>x. [CHR 0x27] @ x @ [CHR 0x27]) xs)
       = pre @ ([CHR 0x27] @ x @ [CHR 0x27]) @ post"
    by blast
  then have "repr_list xs = (''['' @ pre @ [CHR 0x27]) @ x @ ([CHR 0x27] @ post @ '']'')"
    by (simp add: repr_list_def)
  then show ?thesis using str_contains_mid by metis
qed

subsection \<open>Missing settings\<close>

lemma unset_env_vars:
  "k \<in> set required_vars \<Longrightarrow> unset (env_vars w) k = unset (environ w) k"
  by (auto simp: required_vars_def env_vars_def unset_def)

lemma missing_vars_iff:
  "missing_vars w \<noteq> [] \<longleftrightarrow> (\<exists>k \<in> set required_vars. unset (environ w) k)"
  using unset_env_vars[of _ w] by (auto simp: missing_vars_def filter_empty_conv)

lemma missing_keys_iff:
  "missing_keys cfg \<noteq> [] \<longleftrightarrow> (\<exists>k \<in> set required_keys. unset cfg k)"
  by (auto simp: missing_keys_def filter_empty_conv)

lemma init_missing:
  assumes "config_file w = Some lines" and "missing_keys (parse_config lines) \<noteq> []"
  shows "init w (start f) =
           (Inl (Exn ''ValueError'' (''Missing required configuration keys: ''
                   @ repr_list (missing_keys (parse_config lines)))),
            (start f)\<lparr>trace := [FileExists (config_path w), FileRead (config_path w)]\<rparr>)"
  using assms by (simp add: init_def load_config_def bind_io_def emit_def start_def Let_def)

lemma handler_try_missing:
  assumes "parse_input data = Inr body" and "extract_object_name body = Inr object_name"
      and "fst (authenticate w []) = Inr ()" and "missing_vars w \<noteq> []"
  shows "handler_try L w data =
           (Inl (Exn ''ValueError'' (''Missing required environment variables: ''
                   @ join '', '' (missing_vars w))), snd (authenticate w []))"
  using assms by (cases "authenticate w []") (simp add: handler_try_def bind_io_def)

text \<open>
  Claim C8, as stated, fails on the event path: the handler sets up authentication
  before it checks the environment, so with no variable set and no local OCI
  configuration file the exception is that of the configuration file, raised after that
  call, and its message names no variable.
\<close>

theorem missing_settings_fail_fast_counterexample:
  "missing_vars bare_world = required_vars \<and>
   handler_try example_lib bare_world None =
     (Inl (Exn ''ConfigFileNotFound'' ''Could not find config file''), [ConfigFromFile]) \<and>
   \<not> str_contains ''Could not find config file'' ''EMAIL_TO''"
  by code_simp

text \<open>
  Claim C8, amended. Polling path: when a required key is missing from the
  configuration file or empty, \<open>__init__\<close> raises a \<open>ValueError\<close> whose message lists
  every such key, the process exits with code 1, and the only calls made are the two
  that read the configuration file. Event path: when a required variable is missing or
  empty, and the payload and the set-up of authentication have raised nothing, the
  handler raises a \<open>ValueError\<close> whose message lists every such variable, after the
  calls of the authentication and before any other.
\<close>

theorem missing_settings_fail_fast:
  "((\<exists>k \<in> set required_keys. unset (parse_config lines) k) \<and> config_file w = Some lines \<longrightarrow>
      init w (start f) =
        (Inl (Exn ''ValueError'' (''Missing required configuration keys: ''
                @ repr_list (missing_keys (parse_config lines)))),
         (start f)\<lparr>trace := [FileExists (config_path w), FileRead (config_path w)]\<rparr>) \<and>
      fst (main L w f) = 1 \<and>
      (\<forall>k \<in> set required_keys. unset (parse_config lines) k \<longrightarrow>
         str_contains (repr_list (missing_keys (parse_config lines))) k)) \<and>
   ((\<exists>k \<in> set required_vars. unset (environ v) k) \<and> parse_input data = Inr body \<and>
    extract_object_name body = Inr object_name \<and> fst (authenticate v []) = Inr () \<longrightarrow>
      handler_try L v data =
        (Inl (Exn ''ValueError'' (''Missing required environment variables: ''
                @ join '', '' (missing_vars v))), snd (authenticate v [])) \<and>
      set (snd (authenticate v [])) \<subseteq> {ResourcePrincipalsSigner, ConfigFromFile, NewSigner} \<and>
      (\<forall>k \<in> set required_vars. unset (environ v) k \<longrightarrow>
         str_contains (join '', '' (missing_vars v)) k))"
proof (intro conjI impI ballI)
  assume a: "(\<exists>k \<in> set required_keys. unset (parse_config lines) k) \<and> config_file w = Some lines"
  then have m: "missing_keys (parse_config lines) \<noteq> []" by (simp add: missing_keys_iff)
  with a show i: "init w (start f) =
        (Inl (Exn ''ValueError'' (''Missing required configuration keys: ''
                @ repr_list (missing_keys (parse_config lines)))),
         (start f)\<lparr>trace := [FileExists (config_path w), FileRead (config_path w)]\<rparr>)"
    by (simp add: init_missing)
  then show "fst (main L w f) = 1" by (simp add: main_def)
next
  fix k assume "k \<in> set required_keys" "unset (parse_config lines) k"
  then have "k \<in> set (missing_keys (parse_config lines))" by (simp add: missing_keys_def)
  then show "str_contains (repr_list (missing_keys (parse_config lines))) k"
    by (rule repr_list_contains)
next
  assume a: "(\<exists>k \<in> set required_vars. unset (environ v) k) \<and> parse_input data = Inr body \<and>
    extract_object_name body = Inr object_name \<and> fst (authenticate v []) = Inr ()"
  then have "missing_vars v \<noteq> []" by (simp add: missing_vars_iff)
  with a show "handler_try L v data =
        (Inl (Exn ''ValueError'' (''Missing required environment variables: ''
                @ join '', '' (missing_vars v))), snd (authenticate v []))"
    by (simp add: handler_try_missing)
next
  show "set (snd (authenticate v [])) \<subseteq> {ResourcePrincipalsSigner, ConfigFromFile, NewSigner}"
    by (rule authenticate_trace)
next
  fix k assume "k \<in> set required_vars" "unset (environ v) k"
  then have "k \<in> set (missing_vars v)" by (simp add: missing_vars_def unset_env_vars)
  then show "str_contains (join '', '' (missing_vars v)) k" by (rule join_contains)
qed

lemma short_config:
  "missing_keys (parse_config short_lines) =
     [''REPORT_BUCKET_NAME'', ''EMAIL_SENDER'', ''EMAIL_RECIPIENT'',
      ''SMTP_USERNAME_SECRET_OCID'', ''SMTP_PASSWORD_SECRET_OCID'', ''SMTP_PORT''] \<and>
   unset (parse_config short_lines) ''SMTP_PORT'' \<and>
   ''SMTP_PORT'' \<in> set required_keys \<and>
   config_file short_world = Some short_lines"
  by code_simp

lemma unset_example:
  "unset (environ unset_world) ''EMAIL_TO'' \<and> ''EMAIL_TO'' \<in> set required_vars \<and>
   parse_input None = Inr (PDict []) \<and>
   extract_object_name (PDict []) = Inr (PStr ''test-report.csv'') \<and>
   authenticate unset_world [] = (Inr (), [ConfigFromFile, NewSigner]) \<and>
   missing_vars unset_world = required_vars"
  by code_simp

theorem missing_settings_fail_fast_witness:
  "unset (parse_config short_lines) ''SMTP_PORT'' \<and> ''SMTP_PORT'' \<in> set required_keys \<and>
   config_file short_world = Some short_lines \<and>
   fst (init short_world (start NoFile)) =
     Inl (Exn ''ValueError'' (''Missing required configuration keys: '' @
            repr_list [''REPORT_BUCKET_NAME'', ''EMAIL_SENDER'', ''EMAIL_RECIPIENT'',
              ''SMTP_USERNAME_SECRET_OCID'', ''SMTP_PASSWORD_SECRET_OCID'', ''SMTP_PORT''])) \<and>
   unset (environ unset_world) ''EMAIL_TO'' \<and> ''EMAIL_TO'' \<in> set required_vars \<and>
   handler_try example_lib unset_world None =
     (Inl (Exn ''ValueError'' (''Missing required environment variables: '' @
             join '', '' required_vars)), [ConfigFromFile, NewSigner])"
proof -
  have k: "\<exists>k \<in> set required_keys. unset (parse_config short_lines) k"
    using short_config by blast
  have v: "\<exists>k \<in> set required_vars. unset (environ unset_world) k"
    using unset_example by blast
  have a: "fst (authenticate unset_world []) = Inr ()" using unset_example by simp
  from missing_settings_fail_fast[where lines = short_lines and w = short_world and f = NoFile
         and L = example_lib and v = unset_world and data = None and body = "PDict []"
         and object_name = "PStr ''test-report.csv''"] k v a short_config unset_example
  show ?thesis by simp
qed

subsection \<open>The object name\<close>

text \<open>
  Claim C7, as stated, fails for a payload whose \<open>data\<close> member is not a container:
  with \<open>data\<close> \<open>null\<close> and an \<open>objectName\<close> the test
  \<open>"resourceName" in body["data"]\<close> raises \<open>TypeError\<close>, the \<open>objectName\<close> is
  not used, and the handler answers with the error result.
\<close>

theorem object_name_from_payload_counterexample:
  "null_data_payload = Inr (PDict [(''data'', PNone), (''objectName'', PStr ''x.csv'')]) \<and>
   extract_object_name (PDict [(''data'', PNone), (''objectName'', PStr ''x.csv'')])
     = Inl (Exn ''TypeError''
             (''argument of type '' @ [CHR 0x27] @ ''NoneType'' @ [CHR 0x27] @ '' is not iterable'')) \<and>
   handler example_lib example_world (Some ()) (Some null_data_payload)
     = (Inr (Response 500 (error_result (Exn ''TypeError''
             (''argument of type '' @ [CHR 0x27] @ ''NoneType'' @ [CHR 0x27] @ '' is not iterable'')))),
        [])"
  by code_simp

lemma extract_raises_msg:
  "\<not> data_member_ok items \<Longrightarrow>
   \<exists>m. extract_object_name (PDict items) = Inl (Exn ''TypeError'' m)"
  by (auto simp: extract_object_name_def and_then_def data_member_ok_def
           split: option.splits pyval.splits)

lemma extract_raises:
  assumes "\<not> data_member_ok items"
  shows "\<exists>e. exn_type e = ''TypeError'' \<and> extract_object_name (PDict items) = Inl e"
proof -
  from extract_raises_msg[OF assms] obtain m where
    "extract_object_name (PDict items) = Inl (Exn ''TypeError'' m)" ..
  moreover have "exn_type (Exn ''TypeError'' m) = ''TypeError''" by simp
  ultimately show ?thesis by blast
qed

lemma parse_raises_msg:
  "type_name body \<noteq> ''dict'' \<Longrightarrow>
   \<exists>m. parse_input (Some (Inr body)) = Inl (Exn ''AttributeError'' m)"
  by (cases body) (auto simp: parse_input_def)

lemma parse_raises:
  assumes "type_name body \<noteq> ''dict''"
  shows "\<exists>e. exn_type e = ''AttributeError'' \<and> parse_input (Some (Inr body)) = Inl e"
proof -
  from parse_raises_msg[OF assms] obtain m where
    "parse_input (Some (Inr body)) = Inl (Exn ''AttributeError'' m)" ..
  moreover have "exn_type (Exn ''AttributeError'' m) = ''AttributeError''" by simp
  ultimately show ?thesis by blast
qed

text \<open>
  Claim C7, amended. For every payload that is a JSON object whose \<open>data\<close> member is
  absent, or an object, or an array or a string that does not contain
  \<open>resourceName\<close>: the object name is the \<open>resourceName\<close> of the \<open>data\<close> object
  when it has one, otherwise the \<open>objectName\<close> of the payload when it has one, otherwise
  \<open>test-report.csv\<close>; no exception is raised, and the handler goes on to
  authentication with that name. The empty object is such a payload. For every other
  parsed payload the handler raises before authentication and makes no external call:
  \<open>TypeError\<close> when the payload is an object whose \<open>data\<close> member is \<open>null\<close>, a
  number, a boolean, or an array or a string that contains \<open>resourceName\<close>, and
  \<open>AttributeError\<close> when the payload is not an object. Called with a context it
  then returns the error result with code 500; called without one it raises the
  exception again.
\<close>

theorem object_name_from_payload:
  "(data_member_ok items \<longrightarrow>
      parse_input (Some (Inr (PDict items))) = Inr (PDict items) \<and>
      extract_object_name (PDict items) =
        Inr (case resource_name items of
               Some v \<Rightarrow> v
             | None \<Rightarrow> (case map_of items ''objectName'' of
                          Some v \<Rightarrow> v
                        | None \<Rightarrow> PStr ''test-report.csv'')) \<and>
      handler_try L w (Some (Inr (PDict items))) =
        bind_io (authenticate w []) (\<lambda>_ tr.
          if missing_vars w \<noteq> [] then
            (Inl (Exn ''ValueError''
                   (''Missing required environment variables: '' @ join '', '' (missing_vars w))), tr)
          else deliver L w
                 (case resource_name items of
                    Some v \<Rightarrow> v
                  | None \<Rightarrow> (case map_of items ''objectName'' of
                               Some v \<Rightarrow> v
                             | None \<Rightarrow> PStr ''test-report.csv'')) tr)) \<and>
   data_member_ok [] \<and>
   extract_object_name (PDict []) = Inr (PStr ''test-report.csv'') \<and>
   (\<not> data_member_ok items \<longrightarrow>
      (\<exists>e. exn_type e = ''TypeError'' \<and>
           extract_object_name (PDict items) = Inl e \<and>
           handler L w (Some c) (Some (Inr (PDict items)))
             = (Inr (Response 500 (error_result e)), []) \<and>
           handler L w None (Some (Inr (PDict items))) = (Inl e, []))) \<and>
   (type_name body \<noteq> ''dict'' \<longrightarrow>
      (\<exists>e. exn_type e = ''AttributeError'' \<and>
           parse_input (Some (Inr body)) = Inl e \<and>
           handler L w (Some c) (Some (Inr body)) = (Inr (Response 500 (error_result e)), []) \<and>
           handler L w None (Some (Inr body)) = (Inl e, [])))"
proof (intro conjI impI)
  show p: "parse_input (Some (Inr (PDict items))) = Inr (PDict items)"
    by (simp add: parse_input_def)
  assume ok: "data_member_ok items"
  then show e: "extract_object_name (PDict items) =
           Inr (case resource_name items of
                  Some v \<Rightarrow> v
                | None \<Rightarrow> (case map_of items ''objectName'' of
                             Some v \<Rightarrow> v
                           | None \<Rightarrow> PStr ''test-report.csv''))"
    by (auto simp: extract_object_name_def and_then_def data_member_ok_def resource_name_def
             split: option.splits pyval.splits)
  show "handler_try L w (Some (Inr (PDict items))) =
        bind_io (authenticate w []) (\<lambda>_ tr.
          if missing_vars w \<noteq> [] then
            (Inl (Exn ''ValueError''
                   (''Missing required environment variables: '' @ join '', '' (missing_vars w))), tr)
          else deliver L w
                 (case resource_name items of
                    Some v \<Rightarrow> v
                  | None \<Rightarrow> (case map_of items ''objectName'' of
                               Some v \<Rightarrow> v
                             | None \<Rightarrow> PStr ''test-report.csv'')) tr)"
    using p e by (simp add: handler_try_def bind_io_def)
next
  show "data_member_ok []" by (simp add: data_member_ok_def)
next
  show "extract_object_name (PDict []) = Inr (PStr ''test-report.csv'')"
    by (simp add: extract_object_name_def and_then_def)
next
  assume "\<not> data_member_ok items"
  then obtain e where t: "exn_type e = ''TypeError''"
    and x: "extract_object_name (PDict items) = Inl e"
    using extract_raises[of items] by blast
  have "handler_try L w (Some (Inr (PDict items))) = (Inl e, [])"
    using x by (simp add: handler_try_def bind_io_def parse_input_def)
  then have "handler L w (Some c) (Some (Inr (PDict items)))
               = (Inr (Response 500 (error_result e)), []) \<and>
             handler L w None (Some (Inr (PDict items))) = (Inl e, [])"
    by (simp add: handler_def)
  with t x show "\<exists>e. exn_type e = ''TypeError'' \<and>
           extract_object_name (PDict items) = Inl e \<and>
           handler L w (Some c) (Some (Inr (PDict items)))
             = (Inr (Response 500 (error_result e)), []) \<and>
           handler L w None (Some (Inr (PDict items))) = (Inl e, [])"
    by blast
next
  assume "type_name body \<noteq> ''dict''"
  then obtain e where t: "exn_type e = ''AttributeError''"
    and x: "parse_input (Some (Inr body)) = Inl e"
    using parse_raises[of body] by blast
  have "handler_try L w (Some (Inr body)) = (Inl e, [])"
    using x by (simp add: handler_try_def bind_io_def)
  then have "handler L w (Some c) (Some (Inr body)) = (Inr (Response 500 (error_result e)), []) \<and>
             handler L w None (Some (Inr body)) = (Inl e, [])"
    by (simp add: handler_def)
  with t x show "\<exists>e. exn_type e = ''AttributeError'' \<and>
           parse_input (Some (Inr body)) = Inl e \<and>
           handler L w (Some c) (Some (Inr body)) = (Inr (Response 500 (error_result e)), []) \<and>
           handler L w None (Some (Inr body)) = (Inl e, [])"
    by blast
qed

theorem object_name_from_payload_witness:
  "data_member_ok event_items \<and>
   extract_object_name (PDict event_items) = Inr (PStr ''x.csv'') \<and>
   extract_object_name (PDict []) = Inr (PStr ''test-report.csv'') \<and>
   \<not> data_member_ok null_items \<and>
   (\<exists>e. exn_type e = ''TypeError'' \<and>
        handler example_lib example_world (Some ()) (Some (Inr (PDict null_items)))
          = (Inr (Response 500 (error_result e)), [])) \<and>
   type_name (PList []) \<noteq> ''dict'' \<and>
   (\<exists>e. exn_type e = ''AttributeError'' \<and>
        handler example_lib example_world (Some ()) (Some (Inr (PList [])))
          = (Inr (Response 500 (error_result e)), []))"
proof -
  have d: "data_member_ok event_items" "\<not> data_member_ok null_items"
    by (simp_all add: data_member_ok_def event_items_def null_items_def)
  have r: "resource_name event_items = Some (PStr ''x.csv'')"
    by (simp add: resource_name_def event_items_def)
  have n: "type_name (PList []) \<noteq> ''dict''" by simp
  from object_name_from_payload[where items = event_items and L = example_lib
         and w = example_world and c = "()" and body = "PList []"] d r n
  have a: "extract_object_name (PDict event_items) = Inr (PStr ''x.csv'') \<and>
           extract_object_name (PDict []) = Inr (PStr ''test-report.csv'') \<and>
           (\<exists>e. exn_type e = ''AttributeError'' \<and>
              handler example_lib example_world (Some ()) (Some (Inr (PList [])))
                = (Inr (Response 500 (error_result e)), []))"
    by auto
  from object_name_from_payload[where items = null_items and L = example_lib
         and w = example_world and c = "()" and body = "PList []"] d
  have b: "\<exists>e. exn_type e = ''TypeError'' \<and>
        handler example_lib example_world (Some ()) (Some (Inr (PDict null_items)))
          = (Inr (Response 500 (error_result e)), [])"
    by auto
  from a b d n show ?thesis by blast
qed

subsection \<open>A payload that is not JSON\<close>




subsection \<open>The reply\<close>

text \<open>
  Claim C5, as stated, fails for a call without a context, as the local test of
  func.py makes it: the exception is printed and raised again, and the caller gets no
  result.
\<close>

theorem handler_reply_counterexample:
  "handler example_lib bare_world (None :: unit option) None =
     (Inl (Exn ''ConfigFileNotFound'' ''Could not find config file''), [ConfigFromFile])"
  by code_simp

text \<open>
  Claim C5, amended. Called with a context, the handler always returns a response:
  code 200 with the success result (status, message, object name, recipient) when the
  send has completed, code 500 with the error result (status, message, error type) of
  the exception when any step has raised, and then no send has completed. Called
  without a context, it returns the bare success result, or raises the exception again.
\<close>

theorem handler_reply:
  "((\<exists>object_name.
       fst (handler L w (Some c) data) = Inr (Response 200 (success_result L w object_name)) \<and>
       fst (handler L w None data) = Inr (Result (success_result L w object_name)) \<and>
       map_of (success_result L w object_name) ''status'' = Some (PStr ''success'') \<and>
       count_sent (snd (handler L w (Some c) data)) = 1)
    \<or> (\<exists>e.
       fst (handler L w (Some c) data) = Inr (Response 500 (error_result e)) \<and>
       fst (handler L w None data) = Inl e \<and>
       map_of (error_result e) ''status'' = Some (PStr ''error'') \<and>
       map_of (error_result e) ''error_type'' = Some (PStr (exn_type e)) \<and>
       count_sent (snd (handler L w (Some c) data)) = 0))"
proof -
  obtain r tr where h: "handler_try L w data = (r, tr)" by (cases "handler_try L w data")
  from handler_try_shape[of L w data] h
  have "((\<exists>object_name. r = Inr (success_result L w object_name)) \<and> count_sent tr = 1)
        \<or> ((\<exists>e. r = Inl e) \<and> count_sent tr = 0)" by simp
  then show ?thesis
  proof
    assume "(\<exists>object_name. r = Inr (success_result L w object_name)) \<and> count_sent tr = 1"
    then obtain object_name where "r = Inr (success_result L w object_name)" "count_sent tr = 1"
      by blast
    with h have
      "fst (handler L w (Some c) data) = Inr (Response 200 (success_result L w object_name)) \<and>
       fst (handler L w None data) = Inr (Result (success_result L w object_name)) \<and>
       map_of (success_result L w object_name) ''status'' = Some (PStr ''success'') \<and>
       count_sent (snd (handler L w (Some c) data)) = 1"
      by (simp add: handler_def success_result_def)
    then show ?thesis by blast
  next
    assume "(\<exists>e. r = Inl e) \<and> count_sent tr = 0"
    then obtain e where "r = Inl e" "count_sent tr = 0" by blast
    with h have
      "fst (handler L w (Some c) data) = Inr (Response 500 (error_result e)) \<and>
       fst (handler L w None data) = Inl e \<and>
       map_of (error_result e) ''status'' = Some (PStr ''error'') \<and>
       map_of (error_result e) ''error_type'' = Some (PStr (exn_type e)) \<and>
       count_sent (snd (handler L w (Some c) data)) = 0"
      by (simp add: handler_def error_result_def)
    then show ?thesis by blast
  qed
qed

lemma example_handler:
  "fst (handler example_lib example_world (Some ()) (Some (Inr (PDict event_items)))) =
     Inr (Response 200
       [(''status'', PStr ''success''), (''message'', PStr ''Email sent successfully for x.csv''),
        (''object_name'', PStr ''x.csv''), (''recipient'', PStr ''b@x'')]) \<and>
   fst (handler example_lib unset_world (Some ()) None) =
     Inr (Response 500
       [(''status'', PStr ''error''),
        (''message'', PStr (''Function execution failed: Missing required environment variables: ''
            @ join '', '' required_vars)),
        (''error_type'', PStr ''ValueError'')])"
  by code_simp

theorem handler_reply_witness:
  "(\<exists>object_name.
       fst (handler example_lib example_world (Some ()) (Some (Inr (PDict event_items))))
         = Inr (Response 200 (success_result example_lib example_world object_name)) \<and>
       count_sent (snd (handler example_lib example_world (Some ())
                          (Some (Inr (PDict event_items))))) = 1) \<and>
   (\<exists>e. fst (handler example_lib unset_world (Some ()) None) = Inr (Response 500 (error_result e)) \<and>
        fst (handler example_lib unset_world (None :: unit option) None) = Inl e)"
proof -
  from handler_reply[of example_lib example_world "()" "Some (Inr (PDict event_items))"]
       example_handler
  have a: "\<exists>object_name.
       fst (handler example_lib example_world (Some ()) (Some (Inr (PDict event_items))))
         = Inr (Response 200 (success_result example_lib example_world object_name)) \<and>
       count_sent (snd (handler example_lib example_world (Some ())
                          (Some (Inr (PDict event_items))))) = 1"
    by auto
  from handler_reply[of example_lib unset_world "()" None] example_handler
  have b: "\<exists>e. fst (handler example_lib unset_world (Some ()) None)
                 = Inr (Response 500 (error_result e)) \<and>
               fst (handler example_lib unset_world (None :: unit option) None) = Inl e"
    by auto
  from a b show ?thesis by blast
qed


section \<open>The attachment\<close>

subsection \<open>The alphabet\<close>

lemma index_in_nth:
  "distinct xs \<Longrightarrow> n < length xs \<Longrightarrow> b64_index_in xs (xs ! n) = Some n"
proof (induction xs arbitrary: n)
  case Nil
  then show ?case by simp
next
  case (Cons a xs)
  show ?case
  proof (cases n)
    case 0
    then show ?thesis by simp
  next
    case (Suc m)
    with Cons.prems have "m < length xs" "xs ! m \<in> set xs" "a \<notin> set xs" "distinct xs" by auto
    with Suc Cons.IH[of m] show ?thesis by auto
  qed
qed

lemma index_in_None: "c \<notin> set xs \<Longrightarrow> b64_index_in xs c = None"
  by (induction xs) auto

lemma alphabet_distinct: "distinct b64_alphabet"
  by (simp add: b64_alphabet_def)

lemma alphabet_length: "length b64_alphabet = 64"
  by (simp add: b64_alphabet_def)

lemma pad_not_in_alphabet: "CHR ''='' \<notin> set b64_alphabet"
  by (simp add: b64_alphabet_def)

lemma newline_not_in_alphabet: "CHR 0x0A \<notin> set b64_alphabet"
  by (simp add: b64_alphabet_def)

lemma b64_index_char: "n < 64 \<Longrightarrow> b64_index (b64_char n) = Some n"
  using index_in_nth[of b64_alphabet n] alphabet_distinct alphabet_length
  by (simp add: b64_index_def b64_char_def)

lemma b64_char_in_alphabet: "n < 64 \<Longrightarrow> b64_char n \<in> set b64_alphabet"
  unfolding b64_char_def using alphabet_length by (metis nth_mem)

lemma b64_char_not_pad: "n < 64 \<Longrightarrow> b64_char n \<noteq> CHR ''=''"
  using b64_char_in_alphabet[of n] pad_not_in_alphabet by metis

lemma newline_index: "b64_index (CHR 0x0A) = None"
  using newline_not_in_alphabet by (simp add: b64_index_def index_in_None)

subsection \<open>Six bits and eight bits\<close>

lemma div16_less: fixes y :: nat assumes "y < 256" shows "y div 16 < 16"
  using assms by simp

lemma div64_less: fixes z :: nat assumes "z < 256" shows "z div 64 < 4"
  using assms by simp

lemma split16:
  fixes a b :: nat assumes "b < 16"
  shows "(a * 16 + b) div 16 = a" "(a * 16 + b) mod 16 = b"
  using assms by simp_all

lemma split4:
  fixes a b :: nat assumes "b < 4"
  shows "(a * 4 + b) div 4 = a" "(a * 4 + b) mod 4 = b"
  using assms by simp_all

lemma byte1: fixes x y :: nat assumes "y < 256"
  shows "(x div 4) * 4 + ((x mod 4) * 16 + y div 16) div 16 = x"
  using assms by (simp add: split16 div16_less)

lemma byte2: fixes x y z :: nat assumes "y < 256" "z < 256"
  shows "(((x mod 4) * 16 + y div 16) mod 16) * 16 + ((y mod 16) * 4 + z div 64) div 4 = y"
  using assms by (simp add: split16 split4 div16_less div64_less)

lemma byte3: fixes y z :: nat assumes "z < 256"
  shows "(((y mod 16) * 4 + z div 64) mod 4) * 64 + z mod 64 = z"
  using assms by (simp add: split4 div64_less)

lemma byte2_pad: fixes x y :: nat assumes "y < 256"
  shows "(((x mod 4) * 16 + y div 16) mod 16) * 16 + ((y mod 16) * 4) div 4 = y"
  using assms by (simp add: split16 div16_less)

lemma sextet1: fixes x :: nat assumes "x < 256" shows "x div 4 < 64"
  using assms by simp

lemma sextet2: fixes x y :: nat assumes "y < 256" shows "(x mod 4) * 16 + y div 16 < 64"
proof -
  have "x mod 4 \<le> 3" by simp
  moreover have "y div 16 \<le> 15" using assms by simp
  ultimately show ?thesis by linarith
qed

lemma sextet3: fixes y z :: nat assumes "z < 256" shows "(y mod 16) * 4 + z div 64 < 64"
proof -
  have "y mod 16 \<le> 15" by simp
  moreover have "z div 64 \<le> 3" using assms by simp
  ultimately show ?thesis by linarith
qed

lemma sextet2_pad: fixes x :: nat shows "(x mod 4) * 16 < 64"
proof -
  have "x mod 4 \<le> 3" by simp
  then show ?thesis by linarith
qed

lemma sextet3_pad: fixes y :: nat shows "(y mod 16) * 4 < 64"
proof -
  have "y mod 16 \<le> 15" by simp
  then show ?thesis by linarith
qed

subsection \<open>One group of four characters, decoded\<close>

lemma quad_full:
  fixes a b c :: char
  defines "x \<equiv> (of_char a :: nat)" and "y \<equiv> (of_char b :: nat)" and "z \<equiv> (of_char c :: nat)"
  shows "a2b_quads (b64_char (x div 4) # b64_char ((x mod 4) * 16 + y div 16) #
                    b64_char ((y mod 16) * 4 + z div 64) # b64_char (z mod 64) # rest)
         = map_option (\<lambda>bytes. [a, b, c] @ bytes) (a2b_quads rest)"
proof -
  have lt: "x < 256" "y < 256" "z < 256" by (simp_all add: x_def y_def z_def)
  have i: "b64_index (b64_char (x div 4)) = Some (x div 4)"
    using lt by (simp add: b64_index_char sextet1)
  have j: "b64_index (b64_char ((x mod 4) * 16 + y div 16)) = Some ((x mod 4) * 16 + y div 16)"
    using lt by (simp add: b64_index_char sextet2)
  have k: "b64_index (b64_char ((y mod 16) * 4 + z div 64)) = Some ((y mod 16) * 4 + z div 64)"
    using lt by (simp add: b64_index_char sextet3)
  have l: "b64_index (b64_char (z mod 64)) = Some (z mod 64)"
    by (simp add: b64_index_char)
  have np: "b64_char ((y mod 16) * 4 + z div 64) \<noteq> CHR ''=''" "b64_char (z mod 64) \<noteq> CHR ''=''"
    using lt by (simp_all add: b64_char_not_pad sextet3)
  have a: "char_of x = a" "char_of y = b" "char_of z = c" by (simp_all add: x_def y_def z_def)
  show ?thesis
    using np a lt by (cases "a2b_quads rest") (simp_all add: i j k l byte1 byte2 byte3)
qed

lemma quad_two:
  fixes a b :: char
  defines "x \<equiv> (of_char a :: nat)" and "y \<equiv> (of_char b :: nat)"
  shows "a2b_quads [b64_char (x div 4), b64_char ((x mod 4) * 16 + y div 16),
                    b64_char ((y mod 16) * 4), CHR ''='']
         = Some [a, b]"
proof -
  have lt: "x < 256" "y < 256" by (simp_all add: x_def y_def)
  have i: "b64_index (b64_char (x div 4)) = Some (x div 4)"
    using lt by (simp add: b64_index_char sextet1)
  have j: "b64_index (b64_char ((x mod 4) * 16 + y div 16)) = Some ((x mod 4) * 16 + y div 16)"
    using lt by (simp add: b64_index_char sextet2)
  have k: "b64_index (b64_char ((y mod 16) * 4)) = Some ((y mod 16) * 4)"
    by (simp add: b64_index_char sextet3_pad)
  have np: "b64_char ((y mod 16) * 4) \<noteq> CHR ''=''"
    by (simp add: b64_char_not_pad sextet3_pad)
  have a: "char_of x = a" "char_of y = b" by (simp_all add: x_def y_def)
  show ?thesis
    using np a lt by (simp add: i j k byte1 byte2_pad)
qed

lemma quad_one:
  fixes a :: char
  defines "x \<equiv> (of_char a :: nat)"
  shows "a2b_quads [b64_char (x div 4), b64_char ((x mod 4) * 16), CHR ''='', CHR ''='']
         = Some [a]"
proof -
  have i: "b64_index (b64_char (x div 4)) = Some (x div 4)"
    by (simp add: b64_index_char sextet1 x_def)
  have j: "b64_index (b64_char ((x mod 4) * 16)) = Some ((x mod 4) * 16)"
    by (simp add: b64_index_char sextet2_pad)
  have a: "char_of x = a" by (simp add: x_def)
  show ?thesis
    using a by (simp add: i j)
qed

subsection \<open>Decoding what was encoded\<close>

lemma a2b_b2a: "a2b_quads (b2a_groups s) = Some s"
proof (induction s rule: b2a_groups.induct)
  case 1
  then show ?case by simp
next
  case (2 a)
  show ?case using quad_one[of a] by (simp add: Let_def)
next
  case (3 a b)
  show ?case using quad_two[of a b] by (simp add: Let_def)
next
  case (4 a b c rest)
  show ?case using quad_full[of a b c "b2a_groups rest"] "4.IH" by (simp add: Let_def)
qed

text \<open>Cutting the input after a multiple of three bytes does not change the groups.\<close>

lemma groups_append:
  "length xs mod 3 = 0 \<Longrightarrow> b2a_groups (xs @ ys) = b2a_groups xs @ b2a_groups ys"
proof (induction xs rule: b2a_groups.induct)
  case 1
  then show ?case by simp
next
  case (2 a)
  then show ?case by simp
next
  case (3 a b)
  then show ?case by simp
next
  case (4 a b c rest)
  then have "length rest mod 3 = 0" by simp
  with "4.IH" show ?case by (simp add: Let_def)
qed

lemma groups_chunks: "concat (map b2a_groups (chunks s)) = b2a_groups s"
proof (induction s rule: chunks.induct)
  case (1 s)
  show ?case
  proof (cases "s = []")
    case True
    then show ?thesis by simp
  next
    case False
    note ne = this
    show ?thesis
    proof (cases "length s < MAXBINSIZE")
      case True
      then have "take MAXBINSIZE s = s" "drop MAXBINSIZE s = []" by simp_all
      with ne show ?thesis by (subst chunks.simps) simp
    next
      case False
      then have "length (take MAXBINSIZE s) mod 3 = 0" by (simp add: MAXBINSIZE_def)
      then have "b2a_groups (take MAXBINSIZE s @ drop MAXBINSIZE s)
                   = b2a_groups (take MAXBINSIZE s) @ b2a_groups (drop MAXBINSIZE s)"
        by (rule groups_append)
      then have "b2a_groups s = b2a_groups (take MAXBINSIZE s) @ b2a_groups (drop MAXBINSIZE s)"
        by simp
      with ne "1.IH" show ?thesis by (subst chunks.simps) simp
    qed
  qed
qed

text \<open>The decoder keeps every character of the groups and drops the line breaks.\<close>

lemma kept_char: "n < 64 \<Longrightarrow> b64_kept (b64_char n)"
  by (simp add: b64_kept_def b64_index_char)

lemma kept_pad: "b64_kept (CHR ''='')"
  by (simp add: b64_kept_def split: option.splits)

lemma dropped_newline: "\<not> b64_kept (CHR 0x0A)"
  by (simp add: b64_kept_def newline_index)

lemma groups_kept: "filter b64_kept (b2a_groups s) = b2a_groups s"
proof (induction s rule: b2a_groups.induct)
  case 1
  then show ?case by simp
next
  case (2 a)
  have "(of_char a :: nat) < 256" by simp
  then show ?case by (simp add: Let_def kept_char kept_pad sextet1 sextet2_pad)
next
  case (3 a b)
  have "(of_char a :: nat) < 256" "(of_char b :: nat) < 256" by simp_all
  then show ?case
    by (simp add: Let_def kept_char kept_pad sextet1 sextet2 sextet3_pad)
next
  case (4 a b c rest)
  have "(of_char a :: nat) < 256" "(of_char b :: nat) < 256" "(of_char c :: nat) < 256"
    by simp_all
  with "4.IH" show ?case
    by (simp add: Let_def kept_char kept_pad sextet1 sextet2 sextet3)
qed

lemma line_kept: "filter b64_kept (b2a_base64 chunk) = b2a_groups chunk"
  by (simp add: b2a_base64_def groups_kept dropped_newline)

lemma b64decode_encodebytes: "b64decode (encodebytes s) = Some s"
proof -
  have "filter b64_kept (encodebytes s) = concat (map (filter b64_kept \<circ> b2a_base64) (chunks s))"
    by (simp add: encodebytes_def filter_concat)
  also have "\<dots> = concat (map b2a_groups (chunks s))"
    by (simp add: line_kept comp_def)
  also have "\<dots> = b2a_groups s" by (rule groups_chunks)
  finally have "filter b64_kept (encodebytes s) = b2a_groups s" .
  then have "b64decode (encodebytes s) = a2b_quads (b2a_groups s)"
    by (simp add: b64decode_def)
  then show ?thesis by (simp add: a2b_b2a)
qed

text \<open>
  Claim C6. For every sender, recipient, file name and payload of bytes, the attachment
  part of the composed message says \<open>base64\<close>, and decoding its payload gives exactly
  the bytes that were attached. Both programs build the part with \<open>attach_file\<close>.
\<close>

theorem attachment_round_trip:
  "content_transfer_encoding (msg_attachment (compose sender recipient file_name file_data))
     = ''base64'' \<and>
   decoded_payload (msg_attachment (compose sender recipient file_name file_data))
     = Some file_data \<and>
   decoded_payload (attach_file file_name file_data) = Some file_data"
  by (simp add: decoded_payload_def compose_def attach_file_def encode_base64_def Let_def
        b64decode_encodebytes)

theorem attachment_round_trip_witness:
  "payload (attach_file ''r.csv.gz'' ''report'') = ''cmVwb3J0'' @ [CHR 0x0A] \<and>
   decoded_payload (attach_file ''r.csv.gz'' ''report'') = Some ''report''"
proof -
  have "payload (attach_file ''r.csv.gz'' ''report'') = ''cmVwb3J0'' @ [CHR 0x0A]"
    by code_simp
  with attachment_round_trip[of "''a@x''" "''b@x''" "''r.csv.gz''" "''report''"]
  show ?thesis by simp
qed


end
